theory Spec2Isabelle
  imports Main "HOL-Library.AList" "HOL-Library.Multiset" "HOL-Library.Log_Nat"
    "HOL-Library.Code_Target_Numeral"
begin

section \<open>Data model\<close>

text \<open>
  The two scripts \<^verbatim>\<open>prepare_eclipse_messages.py\<close> (pipeline A) and
  \<^verbatim>\<open>prepare_mozilla_messages.py\<close> (pipeline B) work on a pandas data frame. A cell
  is a missing value (\<open>NaN\<close>, \<open>None\<close>, \<open>NaT\<close>: everything \<open>pd.isna\<close> accepts), a string, a
  number, or a timezone-aware timestamp (nanoseconds since the epoch, UTC). A row is an
  association list from column names to cells, in column order; a frame lists its columns
  with their dtype and its rows in order.
\<close>

datatype cell = NA | Str string | Num int | Ts int

datatype dtype = ObjectD | NumericD | DatetimeD

type_synonym row = "(string \<times> cell) list"

record dataframe =
  columns :: "(string \<times> dtype) list"
  rows :: "row list"

text \<open>
  An f-string of the source is kept as its pieces: literal text, an integer printed with
  plain (\<open>I\<close>) or with the format \<open>{:,}\<close> (\<open>N\<close>), and a value printed with \<open>!r\<close>.
\<close>

datatype piece = S string | I int | N int | R string

type_synonym message = "piece list"

datatype error =
    UnicodeDecodeError
  | FileNotFoundError message
  | KeyError message
  | ValueError message
  | OtherError string

text \<open>
  What the scripts take from pandas, numpy, the standard library, the file system and the
  module \<^verbatim>\<open>config_messages\<close> (not part of the sources) is a parameter of the model.
\<close>

record env =
  path_exists :: "string \<Rightarrow> bool"
  abspath :: "string \<Rightarrow> string"
  read_csv :: "string \<Rightarrow> string \<Rightarrow> error + dataframe"
  to_datetime :: "cell list \<Rightarrow> int option list"
  Timestamp :: "string \<Rightarrow> int option"
  str_of :: "cell \<Rightarrow> string"
  argsort :: "cell list \<Rightarrow> nat list"
  sample_perm :: "int \<Rightarrow> nat \<Rightarrow> nat list"
  SYSTEM_PROMPT :: string
  USER_PROMPT_TEMPLATE_format :: "string \<Rightarrow> string \<Rightarrow> string"
  json_dumps_messages :: "string \<Rightarrow> string \<Rightarrow> string \<Rightarrow> string"
  to_csv :: "bool \<Rightarrow> bool \<Rightarrow> string list \<Rightarrow> cell list list \<Rightarrow> string"

section \<open>Frame operations\<close>

definition has_col :: "dataframe \<Rightarrow> string \<Rightarrow> bool" where
  "has_col df c = (c \<in> set (map fst (columns df)))"

definition row_get :: "row \<Rightarrow> string \<Rightarrow> cell option" where
  \<comment> \<open>\<open>r.get(c)\<close>: \<open>None\<close> when the row has no such label\<close>
  "row_get r c = map_of r c"

definition cell_at :: "row \<Rightarrow> string \<Rightarrow> cell" where
  "cell_at r c = (case map_of r c of Some v \<Rightarrow> v | None \<Rightarrow> NA)"

definition series :: "dataframe \<Rightarrow> string \<Rightarrow> cell list" where
  \<comment> \<open>\<open>df[c]\<close>\<close>
  "series df c = map (\<lambda>r. cell_at r c) (rows df)"

definition set_column :: "string \<Rightarrow> dtype \<Rightarrow> cell list \<Rightarrow> dataframe \<Rightarrow> dataframe" where
  \<comment> \<open>\<open>df[c] = values\<close>: an existing column keeps its place, a new one is appended\<close>
  "set_column c d vs df =
     \<lparr>columns = AList.update c d (columns df),
      rows = map (\<lambda>(r, v). AList.update c v r) (zip (rows df) vs)\<rparr>"

definition select_rows :: "bool list \<Rightarrow> dataframe \<Rightarrow> dataframe" where
  \<comment> \<open>\<open>df[mask]\<close>, \<open>df.loc[mask]\<close>\<close>
  "select_rows keep df = df\<lparr>rows := map fst (filter snd (zip (rows df) keep))\<rparr>"

definition isna :: "cell \<Rightarrow> bool" where
  "isna v = (v = NA)"

definition fillna :: "cell \<Rightarrow> cell \<Rightarrow> cell" where
  "fillna v d = (if isna v then d else v)"

definition py_str :: "env \<Rightarrow> cell \<Rightarrow> string" where
  \<comment> \<open>\<open>str(x)\<close>: a string is itself, any other value is rendered by the library\<close>
  "py_str E v = (case v of Str s \<Rightarrow> s | _ \<Rightarrow> str_of E v)"

definition astype_str :: "env \<Rightarrow> cell \<Rightarrow> cell" where
  "astype_str E v = Str (py_str E v)"

section \<open>Field deriver\<close>

definition add_assignee_column :: "env \<Rightarrow> dataframe \<Rightarrow> dataframe" where
  \<comment> \<open>\<^verbatim>\<open>add_assignee_column\<close> of pipeline A, \<^verbatim>\<open>add_assignee\<close> of pipeline B (same body)\<close>
  "add_assignee_column E df0 =
     (let df1 =
        (if has_col df0 ''assigned_to_detail.email'' then
           (let df = set_column ''assignee'' ObjectD (series df0 ''assigned_to_detail.email'') df0
            in if has_col df ''assigned_to'' then
                 set_column ''assignee'' ObjectD
                   (map (\<lambda>(v, d). fillna v d) (zip (series df ''assignee'') (series df ''assigned_to''))) df
               else df)
         else if has_col df0 ''assigned_to'' then
           set_column ''assignee'' ObjectD (series df0 ''assigned_to'') df0
         else
           set_column ''assignee'' ObjectD (map (\<lambda>_. Str '''') (rows df0)) df0)
      in set_column ''assignee'' ObjectD
           (map (\<lambda>v. astype_str E (fillna v (Str ''''))) (series df1 ''assignee'')) df1)"

definition str_or_empty :: "env \<Rightarrow> cell option \<Rightarrow> string" where
  \<comment> \<open>\<^verbatim>\<open>_str_or_empty\<close>\<close>
  "str_or_empty E x =
     (case x of
        None \<Rightarrow> ''''
      | Some v \<Rightarrow> if isna v then '''' else py_str E v)"

definition isspace :: "char \<Rightarrow> bool" where
  \<comment> \<open>\<open>str.isspace\<close> on the code points below 256\<close>
  "isspace c = (of_char c \<in> {9, 10, 11, 12, 13, 28, 29, 30, 31, 32, 133, 160 :: nat})"

definition strip :: "string \<Rightarrow> string" where
  \<comment> \<open>\<open>str.strip()\<close>\<close>
  "strip s = rev (dropWhile isspace (rev (dropWhile isspace s)))"

fun coalesce_text :: "env \<Rightarrow> cell option list \<Rightarrow> string" where
  \<comment> \<open>\<^verbatim>\<open>_coalesce_text\<close> of pipeline A, \<^verbatim>\<open>coalesce\<close> of pipeline B\<close>
  "coalesce_text E [] = ''''"
| "coalesce_text E (c # cs) =
     (let s = strip (str_or_empty E c) in if s \<noteq> '''' then s else coalesce_text E cs)"

definition row_title :: "env \<Rightarrow> row \<Rightarrow> string" where
  "row_title E r = coalesce_text E [row_get r ''summary_update'', row_get r ''summary'']"

definition row_body :: "env \<Rightarrow> row \<Rightarrow> string" where
  "row_body E r = coalesce_text E [row_get r ''description_update'', row_get r ''description'']"

definition add_title_body :: "env \<Rightarrow> dataframe \<Rightarrow> dataframe" where
  \<comment> \<open>pipeline B\<close>
  "add_title_body E df0 =
     (let df1 = set_column ''title'' ObjectD (map (\<lambda>r. Str (row_title E r)) (rows df0)) df0
      in set_column ''body'' ObjectD (map (\<lambda>r. Str (row_body E r)) (rows df1)) df1)"

section \<open>Loader\<close>

definition read_csv_with_fallback ::
  "env \<Rightarrow> string \<Rightarrow> string \<Rightarrow> message list \<times> (error + dataframe \<times> string)" where
  \<comment> \<open>the same function in both scripts; the first component is what it prints\<close>
  "read_csv_with_fallback E path enc =
     (case read_csv E path enc of
        Inr df \<Rightarrow> ([], Inr (df, ''utf-8''))
      | Inl err \<Rightarrow>
          (case err of
             UnicodeDecodeError \<Rightarrow>
               ([[S ''Warning: could not decode '', R path, S '' with '', S enc,
                  S '', retrying latin-1'']],
                case read_csv E path ''latin-1'' of
                  Inr df \<Rightarrow> Inr (df, ''latin-1'')
                | Inl err' \<Rightarrow> Inl err')
           | _ \<Rightarrow> ([], Inl err)))"

section \<open>Window filter\<close>

definition is_datetime64_any_dtype :: "dataframe \<Rightarrow> string \<Rightarrow> bool" where
  "is_datetime64_any_dtype df c = (map_of (columns df) c = Some DatetimeD)"

definition ts_cell :: "int option \<Rightarrow> cell" where
  \<comment> \<open>a coerced value: the timestamp, or \<open>NaT\<close>\<close>
  "ts_cell p = (case p of Some t \<Rightarrow> Ts t | None \<Rightarrow> NA)"

definition notna :: "cell \<Rightarrow> bool" where
  "notna v = (\<not> isna v)"

definition cell_ge :: "cell \<Rightarrow> int \<Rightarrow> bool" where
  "cell_ge v s = (case v of Ts t \<Rightarrow> s \<le> t | _ \<Rightarrow> False)"

definition cell_le :: "cell \<Rightarrow> int \<Rightarrow> bool" where
  "cell_le v e = (case v of Ts t \<Rightarrow> t \<le> e | _ \<Rightarrow> False)"

definition ensure_datetime_col :: "env \<Rightarrow> dataframe \<Rightarrow> string \<Rightarrow> error + dataframe" where
  "ensure_datetime_col E df0 c =
     (if \<not> has_col df0 c then Inl (KeyError [S ''CSV must contain '', R c, S ''.''])
      else
        (let df1 = (if \<not> is_datetime64_any_dtype df0 c
                    then set_column c DatetimeD (map ts_cell (to_datetime E (series df0 c))) df0
                    else df0)
         in Inr (select_rows (map notna (series df1 c)) df1)))"

definition filter_window :: "env \<Rightarrow> dataframe \<Rightarrow> string \<Rightarrow> string \<Rightarrow> error + dataframe" where
  "filter_window E df0 start end =
     (case ensure_datetime_col E df0 ''creation_time'' of
        Inl err \<Rightarrow> Inl err
      | Inr df \<Rightarrow>
          (case Timestamp E (start @ ''T00:00:00Z'') of
             None \<Rightarrow> Inl (OtherError ''Timestamp'')
           | Some s \<Rightarrow>
               (case Timestamp E (end @ ''T23:59:59Z'') of
                  None \<Rightarrow> Inl (OtherError ''Timestamp'')
                | Some e \<Rightarrow>
                    Inr (select_rows
                           (map (\<lambda>v. cell_ge v s \<and> cell_le v e) (series df ''creation_time''))
                           df))))"

definition window_mozilla :: "env \<Rightarrow> dataframe \<Rightarrow> string \<Rightarrow> string \<Rightarrow> error + dataframe" where
  \<comment> \<open>pipeline B, lines 100 to 107 of \<^verbatim>\<open>main\<close>\<close>
  "window_mozilla E df start end =
     (if \<not> has_col df ''creation_time'' then
        Inl (KeyError [S ''CSV must contain '', R ''creation_time'', S ''.''])
      else
        (let dt = map ts_cell (to_datetime E (series df ''creation_time''))
         in case Timestamp E (start @ ''T00:00:00Z'') of
              None \<Rightarrow> Inl (OtherError ''Timestamp'')
            | Some s \<Rightarrow>
                (case Timestamp E (end @ ''T23:59:59Z'') of
                   None \<Rightarrow> Inl (OtherError ''Timestamp'')
                 | Some e \<Rightarrow>
                     Inr (select_rows (map (\<lambda>v. notna v \<and> cell_ge v s \<and> cell_le v e) dt) df))))"

section \<open>Count reconciler\<close>

definition sort_values :: "env \<Rightarrow> string \<Rightarrow> dataframe \<Rightarrow> dataframe" where
  \<comment> \<open>\<open>df.sort_values(c)\<close>: the rows in the order the library's sort gives\<close>
  "sort_values E c df = df\<lparr>rows := map (\<lambda>i. rows df ! i) (argsort E (series df c))\<rparr>"

definition head :: "int \<Rightarrow> dataframe \<Rightarrow> dataframe" where
  \<comment> \<open>\<open>df.head(k)\<close> is \<open>df.iloc[:k]\<close>: a negative \<open>k\<close> drops the last \<open>-k\<close> rows\<close>
  "head k df =
     df\<lparr>rows := (if 0 \<le> k then take (nat k) (rows df)
                 else take (length (rows df) - nat (- k)) (rows df))\<rparr>"

definition arrow :: string where
  \<comment> \<open>the UTF-8 bytes of the arrow in the printed messages\<close>
  "arrow = [char_of (226::nat), char_of (134::nat), char_of (146::nat)]"

definition reconcile_eclipse ::
  "env \<Rightarrow> int \<Rightarrow> bool \<Rightarrow> dataframe \<Rightarrow> message list \<times> (error + dataframe)" where
  \<comment> \<open>pipeline A, lines 145 to 155 of \<^verbatim>\<open>main\<close>\<close>
  "reconcile_eclipse E target_exact allow_below_target df_span =
     (let n_before = int (length (rows df_span)) in
      if target_exact \<noteq> 0 \<and> n_before \<ge> target_exact then
        (let df = head target_exact (sort_values E ''creation_time'' df_span)
         in ([[S ''  In-window rows: '', N n_before, S (CHR '' '' # arrow @ '' trimmed to exact ''),
               N (int (length (rows df)))]],
             Inr df))
      else if target_exact \<noteq> 0 \<and> n_before < target_exact then
        (let msg = [S ''Only '', N n_before, S '' rows in window (< target '', N target_exact,
                    S ''). '',
                    S (if allow_below_target then ''Continuing''
                       else ''Re-run after augmenting or use --allow_below_target''),
                    S ''.'']
         in if allow_below_target then ([S ''  '' # msg], Inr df_span)
            else ([], Inl (ValueError msg)))
      else ([], Inr df_span))"

definition reconcile_mozilla ::
  "int \<Rightarrow> bool \<Rightarrow> dataframe \<Rightarrow> message list \<times> (error + dataframe)" where
  \<comment> \<open>pipeline B, lines 110 to 114 of \<^verbatim>\<open>main\<close>\<close>
  "reconcile_mozilla expect_count no_strict_count df_span =
     (let n = int (length (rows df_span)) in
      if expect_count \<noteq> 0 \<and> \<not> no_strict_count \<and> n \<noteq> expect_count then
        ([], Inl (ValueError [S ''In-span rows '', N n, S '' != expected '', N expect_count,
                             S ''. '', S ''Rerun with --no_strict_count if you want to proceed anyway.'']))
      else if expect_count \<noteq> 0 \<and> n \<noteq> expect_count then
        ([[S ''  WARNING: In-span rows '', N n, S '' != expected '', N expect_count,
           S '' (continuing).'']],
         Inr df_span)
      else ([], Inr df_span))"

section \<open>Splitter\<close>

text \<open>
  The slice bounds are \<open>int(n * 0.80)\<close> and \<open>int(n * 0.10)\<close>: \<open>n\<close> is converted to a
  double, multiplied by the double nearest to the decimal constant, and the product,
  rounded to 53 significant bits (to nearest, ties to even), is truncated. The double
  nearest to \<open>0.80\<close> is \<open>3602879701896397 / 2^52\<close>, the one nearest to \<open>0.10\<close> is
  \<open>3602879701896397 / 2^55\<close>.
\<close>

definition round53 :: "nat \<Rightarrow> nat" where
  \<comment> \<open>a natural number rounded to 53 significant bits, to nearest, ties to even\<close>
  "round53 p =
     (let k = floorlog 2 p in
      if k \<le> 53 then p
      else
        (let s = k - 53; q = p div 2 ^ s; r = p mod 2 ^ s
         in (if 2 * r > 2 ^ s \<or> (2 * r = 2 ^ s \<and> odd q) then q + 1 else q) * 2 ^ s))"

definition int_mul_0_80 :: "nat \<Rightarrow> nat" where
  \<comment> \<open>\<open>int(n * 0.80)\<close>\<close>
  "int_mul_0_80 n = round53 (round53 n * 3602879701896397) div 2 ^ 52"

definition int_mul_0_10 :: "nat \<Rightarrow> nat" where
  \<comment> \<open>\<open>int(n * 0.10)\<close>\<close>
  "int_mul_0_10 n = round53 (round53 n * 3602879701896397) div 2 ^ 55"

definition sample_frac1 :: "env \<Rightarrow> int \<Rightarrow> dataframe \<Rightarrow> dataframe" where
  \<comment> \<open>\<open>df.sample(frac=1.0, random_state=seed).reset_index(drop=True)\<close>\<close>
  "sample_frac1 E sd df =
     df\<lparr>rows := map (\<lambda>i. rows df ! i) (sample_perm E sd (length (rows df)))\<rparr>"

definition iloc :: "nat \<Rightarrow> nat \<Rightarrow> 'a list \<Rightarrow> 'a list" where
  \<comment> \<open>\<open>xs[a:b]\<close> for bounds that are not negative\<close>
  "iloc a b xs = drop a (take b xs)"

definition split_80_10_10 :: "nat \<Rightarrow> 'a list \<Rightarrow> 'a list \<times> 'a list \<times> 'a list" where
  \<comment> \<open>the slicing of the shuffled rows, as in both scripts; \<open>n\<close> is the number of rows
      before the shuffle\<close>
  "split_80_10_10 n shuf =
     (let n_train = int_mul_0_80 n;
          n_val = int_mul_0_10 n
      in (take n_train shuf, iloc n_train (n_train + n_val) shuf, drop (n_train + n_val) shuf))"

definition split_frame :: "env \<Rightarrow> int \<Rightarrow> dataframe \<Rightarrow> dataframe \<times> dataframe \<times> dataframe" where
  "split_frame E sd df_span =
     (let n = length (rows df_span);
          df_shuf = sample_frac1 E sd df_span;
          (tr, va, te) = split_80_10_10 n (rows df_shuf)
      in (df_shuf\<lparr>rows := tr\<rparr>, df_shuf\<lparr>rows := va\<rparr>, df_shuf\<lparr>rows := te\<rparr>))"

section \<open>Emitters\<close>

record world =
  stdout :: "message list"
  dirs :: "string list"
  files :: "(string \<times> string \<times> string) list"

definition print :: "message \<Rightarrow> world \<Rightarrow> world" where
  "print m w = w\<lparr>stdout := stdout w @ [m]\<rparr>"

definition prints :: "message list \<Rightarrow> world \<Rightarrow> world" where
  "prints ms w = w\<lparr>stdout := stdout w @ ms\<rparr>"

definition makedirs :: "string \<Rightarrow> world \<Rightarrow> world" where
  \<comment> \<open>\<open>os.makedirs(d, exist_ok=True)\<close>\<close>
  "makedirs d w = w\<lparr>dirs := List.insert d (dirs w)\<rparr>"

definition write_file :: "string \<Rightarrow> string \<Rightarrow> string \<Rightarrow> world \<Rightarrow> world" where
  \<comment> \<open>a file opened with mode \<open>w\<close> replaces the one of that name\<close>
  "write_file path enc text w = w\<lparr>files := AList.update path (enc, text) (files w)\<rparr>"

definition path_join :: "string \<Rightarrow> string \<Rightarrow> string" where
  \<comment> \<open>\<open>os.path.join\<close> of two POSIX paths\<close>
  "path_join a b =
     (if b \<noteq> [] \<and> hd b = CHR ''/'' then b
      else if a = [] \<or> last a = CHR ''/'' then a @ b
      else a @ ''/'' @ b)"

definition dirname :: "string \<Rightarrow> string" where
  \<comment> \<open>\<open>os.path.dirname\<close> of a POSIX path\<close>
  "dirname p =
     (let h = rev (dropWhile (\<lambda>c. c \<noteq> CHR ''/'') (rev p))
      in if filter (\<lambda>c. c \<noteq> CHR ''/'') h \<noteq> []
         then rev (dropWhile (\<lambda>c. c = CHR ''/'') (rev h)) else h)"

definition newline :: string where
  "newline = [char_of (10::nat)]"

definition to_jsonl :: "env \<Rightarrow> dataframe \<Rightarrow> string \<Rightarrow> world \<Rightarrow> world" where
  \<comment> \<open>pipeline A\<close>
  "to_jsonl E rows_df out_path w =
     print [S ''Wrote '', I (int (length (rows rows_df))), S '' examples to '', S out_path]
       (write_file out_path ''utf-8''
          (concat (map (\<lambda>r. json_dumps_messages E (SYSTEM_PROMPT E)
                               (USER_PROMPT_TEMPLATE_format E (row_title E r) (row_body E r))
                               (str_or_empty E (row_get r ''assignee'')) @ newline)
                       (rows rows_df)))
          (makedirs (dirname out_path) w))"

definition to_title_body_assignee_csv :: "env \<Rightarrow> dataframe \<Rightarrow> string \<Rightarrow> world \<Rightarrow> world" where
  \<comment> \<open>pipeline A: an unquoted header, then the data with every field quoted\<close>
  "to_title_body_assignee_csv E rows_df out_path w =
     (let assignee_series =
            (if has_col rows_df ''assignee''
             then map (\<lambda>v. str_or_empty E (Some v)) (series rows_df ''assignee'')
             else map (\<lambda>_. '''') (rows rows_df));
          out_df = map (\<lambda>(r, a). [Str (row_title E r), Str (row_body E r), Str a])
                       (zip (rows rows_df) assignee_series)
      in print [S ''Wrote '', I (int (length out_df)), S '' rows to '', S out_path,
                S '' (unquoted header; QUOTE_ALL data)'']
           (write_file out_path ''utf-8-sig''
              (''title,body,assignee'' @ newline
                 @ to_csv E False True [''title'', ''body'', ''assignee''] out_df)
              (makedirs (dirname out_path) w)))"

definition to_jsonl_mozilla :: "env \<Rightarrow> dataframe \<Rightarrow> string \<Rightarrow> world \<Rightarrow> world" where
  \<comment> \<open>pipeline B: \<^verbatim>\<open>to_jsonl\<close>, reading the columns \<open>title\<close>, \<open>body\<close> and \<open>assignee\<close>,
      which \<^verbatim>\<open>main\<close> has added before it calls the emitter\<close>
  "to_jsonl_mozilla E df path w =
     print [S ''Wrote '', I (int (length (rows df))), S '' examples to '', S path]
       (write_file path ''utf-8''
          (concat (map (\<lambda>r. json_dumps_messages E (SYSTEM_PROMPT E)
                               (USER_PROMPT_TEMPLATE_format E
                                  (str_or_empty E (Some (cell_at r ''title'')))
                                  (str_or_empty E (Some (cell_at r ''body''))))
                               (str_or_empty E (Some (cell_at r ''assignee''))) @ newline)
                       (rows df)))
          (makedirs (dirname path) w))"

definition to_csv_slim :: "env \<Rightarrow> dataframe \<Rightarrow> string \<Rightarrow> world \<Rightarrow> world" where
  \<comment> \<open>pipeline B: the three columns with the library's default header and quoting\<close>
  "to_csv_slim E df path w =
     print [S ''Wrote '', I (int (length (rows df))), S '' rows to '', S path]
       (write_file path ''utf-8-sig''
          (to_csv E True False [''title'', ''body'', ''assignee'']
             (map (\<lambda>r. [cell_at r ''title'', cell_at r ''body'', cell_at r ''assignee'']) (rows df)))
          (makedirs (dirname path) w))"

section \<open>Top-level orchestration\<close>

record args =
  out_dir :: string
  seed :: int
  encoding :: string
  start_date :: string
  end_date :: string

record args_eclipse = args +
  eclipse_csv :: string
  target_exact :: int
  allow_below_target :: bool

record args_mozilla = args +
  mozilla_csv :: string
  expect_count :: int
  no_strict_count :: bool

definition resolve_csv_path :: "env \<Rightarrow> string \<Rightarrow> message list \<times> (error + string)" where
  \<comment> \<open>pipeline A, lines 130 to 137 of \<^verbatim>\<open>main\<close>\<close>
  "resolve_csv_path E csv =
     (if \<not> path_exists E csv then
        (if path_exists E ''eclipse_my.csv''
         then ([[S arrow, S '' '', S csv, S '' not found; using '', S ''eclipse_my.csv'']],
               Inr ''eclipse_my.csv'')
         else ([], Inl (FileNotFoundError
                         [S ''Neither '', S csv, S '' nor eclipse_my.csv exists.''])))
      else ([], Inr csv))"

definition emit_eclipse ::
  "env \<Rightarrow> args_eclipse \<Rightarrow> string \<Rightarrow> string \<Rightarrow> dataframe \<Rightarrow> world \<Rightarrow> world" where
  \<comment> \<open>pipeline A, lines 157 to 179 of \<^verbatim>\<open>main\<close>\<close>
  "emit_eclipse E a csv_path enc df_span0 w0 =
     (let df_span = add_assignee_column E df_span0;
          n = length (rows df_span);
          (train_df, val_df, test_df) = split_frame E (seed a) df_span;
          w1 = makedirs (out_dir a) w0;
          w2 = to_jsonl E train_df (path_join (out_dir a) ''train_all.jsonl'') w1;
          w3 = to_jsonl E val_df (path_join (out_dir a) ''valid_all.jsonl'') w2;
          w4 = to_title_body_assignee_csv E test_df (path_join (out_dir a) ''test_all.csv'') w3;
          w5 = print [S ''SUMMARY: total_in_window='', I (int n),
                      S ''  train='', I (int (length (rows train_df))),
                      S ''  valid='', I (int (length (rows val_df))),
                      S ''  test='', I (int (length (rows test_df)))] w4
      in print [S ''Span: '', S (start_date a), S '' .. '', S (end_date a),
                S ''  |  Source CSV: '', S csv_path, S '' (encoding='', S enc, S '')''] w5)"

definition main_eclipse :: "env \<Rightarrow> args_eclipse \<Rightarrow> world \<Rightarrow> world \<times> error option" where
  \<comment> \<open>\<^verbatim>\<open>main\<close> of \<^verbatim>\<open>prepare_eclipse_messages.py\<close>, after the arguments are parsed\<close>
  "main_eclipse E a w0 =
     (case resolve_csv_path E (eclipse_csv a) of
        (ms0, Inl err) \<Rightarrow> (prints ms0 w0, Some err)
      | (ms0, Inr csv_path) \<Rightarrow>
          (let w1 = print [S arrow, S '' Loading CSV: '', S (abspath E csv_path)] (prints ms0 w0)
           in case read_csv_with_fallback E csv_path (encoding a) of
                (ms1, Inl err) \<Rightarrow> (prints ms1 w1, Some err)
              | (ms1, Inr (df_raw0, enc)) \<Rightarrow>
                  (let w2 = prints ms1 w1
                   in case ensure_datetime_col E df_raw0 ''creation_time'' of
                        Inl err \<Rightarrow> (w2, Some err)
                      | Inr df_raw \<Rightarrow>
                          (case filter_window E df_raw (start_date a) (end_date a) of
                             Inl err \<Rightarrow> (w2, Some err)
                           | Inr df_span0 \<Rightarrow>
                               (case reconcile_eclipse E (target_exact a) (allow_below_target a)
                                       df_span0 of
                                  (ms2, Inl err) \<Rightarrow> (prints ms2 w2, Some err)
                                | (ms2, Inr df_span) \<Rightarrow>
                                    (emit_eclipse E a csv_path enc df_span (prints ms2 w2),
                                     None))))))"

definition emit_mozilla ::
  "env \<Rightarrow> args_mozilla \<Rightarrow> string \<Rightarrow> dataframe \<Rightarrow> world \<Rightarrow> world" where
  \<comment> \<open>pipeline B, lines 116 to 139 of \<^verbatim>\<open>main\<close>\<close>
  "emit_mozilla E a enc df_span0 w0 =
     (let df_span = add_title_body E (add_assignee_column E df_span0);
          n = length (rows df_span);
          (train, valid, test) = split_frame E (seed a) df_span;
          w1 = makedirs (out_dir a) w0;
          w2 = to_jsonl_mozilla E train (path_join (out_dir a) ''train_all.jsonl'') w1;
          w3 = to_jsonl_mozilla E valid (path_join (out_dir a) ''valid_all.jsonl'') w2;
          w4 = to_csv_slim E test (path_join (out_dir a) ''test_all.csv'') w3;
          w5 = print [S ''SUMMARY: total_in_span='', N (int n),
                      S ''  train='', N (int (length (rows train))),
                      S ''  valid='', N (int (length (rows valid))),
                      S ''  test='', N (int (length (rows test)))] w4
      in print [S ''Span: '', S (start_date a), S '' .. '', S (end_date a),
                S '' | Source: '', S (mozilla_csv a), S '' (encoding='', S enc, S '')''] w5)"

definition main_mozilla :: "env \<Rightarrow> args_mozilla \<Rightarrow> world \<Rightarrow> world \<times> error option" where
  \<comment> \<open>\<^verbatim>\<open>main\<close> of \<^verbatim>\<open>prepare_mozilla_messages.py\<close>, after the arguments are parsed\<close>
  "main_mozilla E a w0 =
     (if \<not> path_exists E (mozilla_csv a) then
        (w0, Some (FileNotFoundError [S (mozilla_csv a)]))
      else
        (let w1 = print [S arrow, S '' Loading CSV: '', S (abspath E (mozilla_csv a))] w0
         in case read_csv_with_fallback E (mozilla_csv a) (encoding a) of
              (ms1, Inl err) \<Rightarrow> (prints ms1 w1, Some err)
            | (ms1, Inr (df, enc)) \<Rightarrow>
                (let w2 = prints ms1 w1
                 in case window_mozilla E df (start_date a) (end_date a) of
                      Inl err \<Rightarrow> (w2, Some err)
                    | Inr df_span0 \<Rightarrow>
                        (let w3 = print [S ''  In-span rows (kept): '',
                                         N (int (length (rows df_span0)))] w2
                         in case reconcile_mozilla (expect_count a) (no_strict_count a) df_span0 of
                              (ms2, Inl err) \<Rightarrow> (prints ms2 w3, Some err)
                            | (ms2, Inr df_span) \<Rightarrow>
                                (emit_mozilla E a enc df_span (prints ms2 w3), None)))))"

section \<open>The specification's wording\<close>

text \<open>
  The definitions of this section follow the specification, not the code; the theorems
  below compare them with the functions above.
\<close>

definition assignee_spec :: "env \<Rightarrow> dataframe \<Rightarrow> row \<Rightarrow> string" where
  \<comment> \<open>the identity-detail value if the column exists and the value is not null, else the
      plain assignment value if that column exists and the value is not null, else empty\<close>
  "assignee_spec E df r =
     (if has_col df ''assigned_to_detail.email'' \<and> cell_at r ''assigned_to_detail.email'' \<noteq> NA
      then py_str E (cell_at r ''assigned_to_detail.email'')
      else if has_col df ''assigned_to'' \<and> cell_at r ''assigned_to'' \<noteq> NA
      then py_str E (cell_at r ''assigned_to'')
      else '''')"

definition derived_text_spec :: "env \<Rightarrow> cell option \<Rightarrow> cell option \<Rightarrow> string" where
  \<comment> \<open>the trimmed updated variant if it is not empty, else the trimmed original variant if
      it is not empty, else the empty string\<close>
  "derived_text_spec E updated original =
     (if strip (str_or_empty E updated) \<noteq> '''' then strip (str_or_empty E updated)
      else if strip (str_or_empty E original) \<noteq> '''' then strip (str_or_empty E original)
      else '''')"

definition in_window :: "int \<Rightarrow> int \<Rightarrow> int option \<Rightarrow> bool" where
  \<comment> \<open>the value parsed to a timestamp, and the timestamp lies in the closed interval\<close>
  "in_window s e p = (case p of Some t \<Rightarrow> s \<le> t \<and> t \<le> e | None \<Rightarrow> False)"

definition row_ts :: "row \<Rightarrow> int" where
  \<comment> \<open>the creation time of a row whose \<open>creation_time\<close> cell is a timestamp\<close>
  "row_ts r = (case cell_at r ''creation_time'' of Ts t \<Rightarrow> t | _ \<Rightarrow> 0)"

definition argsort_ok :: "env \<Rightarrow> dataframe \<Rightarrow> bool" where
  \<comment> \<open>what \<open>sort_values\<close> promises on this frame: the order is a permutation of the row
      positions, and the creation times are ascending along it\<close>
  "argsort_ok E df =
     (let p = argsort E (series df ''creation_time'')
      in mset p = mset [0..<length (rows df)] \<and> sorted (map (\<lambda>i. row_ts (rows df ! i)) p))"

definition aborted_before_output :: "world \<Rightarrow> world \<times> error option \<Rightarrow> error \<Rightarrow> bool" where
  \<comment> \<open>the run started in \<open>w\<close> ended with the error, having written no file and created no
      directory\<close>
  "aborted_before_output w res err =
     (snd res = Some err \<and> files (fst res) = files w \<and> dirs (fst res) = dirs w)"

section \<open>Example inputs\<close>

definition ex_raw :: dataframe where
  "ex_raw =
     \<lparr>columns = [(''creation_time'', ObjectD), (''assigned_to'', ObjectD), (''summary'', ObjectD)],
      rows =
       [[(''creation_time'', Str ''2014-05-13T08:30:00Z''), (''assigned_to'', Str ''carol@x.org''),
         (''summary'', Str ''Editor freezes'')],
        [(''creation_time'', Str ''not a date''), (''assigned_to'', Str ''dave@x.org''),
         (''summary'', Str ''Bad stamp'')],
        [(''creation_time'', Str ''2008-01-10T00:00:00Z''), (''assigned_to'', NA),
         (''summary'', Str ''  Crash on start '')],
        [(''creation_time'', Str ''2017-07-14T00:00:00Z''), (''assigned_to'', Str ''erin@x.org''),
         (''summary'', Str ''Late report'')],
        [(''creation_time'', Str ''2011-03-13T12:00:00Z''), (''assigned_to'', Str ''bob@x.org''),
         (''summary'', NA)]]\<rparr>"

definition ex_span :: dataframe where
  \<comment> \<open>the rows of \<open>ex_raw\<close> inside November 2007 to November 2015, as pipeline A holds them\<close>
  "ex_span =
     \<lparr>columns = [(''creation_time'', DatetimeD), (''assigned_to'', ObjectD), (''summary'', ObjectD)],
      rows =
       [[(''creation_time'', Ts 1399969800000000000), (''assigned_to'', Str ''carol@x.org''),
         (''summary'', Str ''Editor freezes'')],
        [(''creation_time'', Ts 1199923200000000000), (''assigned_to'', NA),
         (''summary'', Str ''  Crash on start '')],
        [(''creation_time'', Ts 1300017600000000000), (''assigned_to'', Str ''bob@x.org''),
         (''summary'', NA)]]\<rparr>"

definition ex_to_datetime :: "cell list \<Rightarrow> int option list" where
  "ex_to_datetime =
     map (\<lambda>v. case v of
                Str s \<Rightarrow> map_of [(''2014-05-13T08:30:00Z'', 1399969800000000000),
                                   (''2008-01-10T00:00:00Z'', 1199923200000000000),
                                   (''2017-07-14T00:00:00Z'', 1499990400000000000),
                                   (''2011-03-13T12:00:00Z'', 1300017600000000000)] s
              | _ \<Rightarrow> None)"

definition ex_Timestamp :: "string \<Rightarrow> int option" where
  "ex_Timestamp =
     map_of [(''2007-11-01T00:00:00Z'', 1193875200000000000),
             (''2015-11-30T23:59:59Z'', 1448927999000000000),
             (''1999-06-01T00:00:00Z'', 928195200000000000),
             (''2021-02-28T23:59:59Z'', 1614556799000000000)]"

definition ex_argsort :: "cell list \<Rightarrow> nat list" where
  "ex_argsort ks = sort_key (\<lambda>i. case ks ! i of Ts t \<Rightarrow> t | _ \<Rightarrow> 0) [0..<length ks]"

definition ex_env :: env where
  "ex_env =
     \<lparr>path_exists = (\<lambda>p. p = ''bugs.csv''),
      abspath = (\<lambda>p. ''/data/'' @ p),
      read_csv = (\<lambda>p enc. if p = ''bugs.csv'' then Inr ex_raw else Inl (OtherError ''no such file'')),
      to_datetime = ex_to_datetime,
      Timestamp = ex_Timestamp,
      str_of = (\<lambda>v. ''?''),
      argsort = ex_argsort,
      sample_perm = (\<lambda>sd n. rev [0..<n]),
      SYSTEM_PROMPT = ''Assign the bug.'',
      USER_PROMPT_TEMPLATE_format = (\<lambda>title body. ''Title: '' @ title @ '' Body: '' @ body),
      json_dumps_messages = (\<lambda>s u a. s @ ''|'' @ u @ ''|'' @ a),
      to_csv = (\<lambda>header quote_all cols data.
                  concat (map (\<lambda>r. concat (map (\<lambda>v. case v of Str s \<Rightarrow> s @ '','' | _ \<Rightarrow> '','') r)) data))\<rparr>"

definition cp1252_env :: env where
  \<comment> \<open>a file that decodes as cp1252 and not as utf-8\<close>
  "cp1252_env =
     ex_env\<lparr>read_csv := (\<lambda>p enc. if p = ''bugs.csv'' \<and> enc = ''cp1252'' then Inr ex_raw
                                  else if p = ''bugs.csv'' \<and> enc = ''utf-8'' then Inl UnicodeDecodeError
                                  else Inl (OtherError ''no such file''))\<rparr>"

definition nocol_env :: env where
  \<comment> \<open>a source file without the \<open>creation_time\<close> column\<close>
  "nocol_env =
     ex_env\<lparr>read_csv := (\<lambda>p enc. Inr \<lparr>columns = [(''summary'', ObjectD)],
                                         rows = [[(''summary'', Str ''Crash on start'')]]\<rparr>)\<rparr>"

definition badcsv_env :: env where
  \<comment> \<open>a source file the parser rejects\<close>
  "badcsv_env = ex_env\<lparr>read_csv := (\<lambda>p enc. Inl (OtherError ''ParserError''))\<rparr>"

definition ex_world :: world where
  "ex_world = \<lparr>stdout = [], dirs = [], files = []\<rparr>"

definition ex_args_eclipse :: args_eclipse where
  "ex_args_eclipse =
     \<lparr>out_dir = ''out'', seed = 3407, encoding = ''utf-8'',
      start_date = ''2007-11-01'', end_date = ''2015-11-30'',
      eclipse_csv = ''bugs.csv'', target_exact = 16106, allow_below_target = False\<rparr>"

definition ex_args_mozilla :: args_mozilla where
  "ex_args_mozilla =
     \<lparr>out_dir = ''out'', seed = 3407, encoding = ''utf-8'',
      start_date = ''1999-06-01'', end_date = ''2021-02-28'',
      mozilla_csv = ''bugs.csv'', expect_count = 110467, no_strict_count = False\<rparr>"

section \<open>Frame lemmas\<close>

lemma rows_set_column:
  "rows (set_column c d vs df) = map (\<lambda>(r, v). AList.update c v r) (zip (rows df) vs)"
  by (simp add: set_column_def)

lemma columns_set_column:
  "columns (set_column c d vs df) = AList.update c d (columns df)"
  by (simp add: set_column_def)

lemma has_col_set_column: "has_col (set_column c d vs df) c' = (c' = c \<or> has_col df c')"
  by (auto simp: has_col_def columns_set_column dom_update)

lemma cell_at_update: "cell_at (AList.update c v r) c' = (if c' = c then v else cell_at r c')"
  by (simp add: cell_at_def update_conv')

lemma row_get_update: "row_get (AList.update c v r) c' = (if c' = c then Some v else row_get r c')"
  by (simp add: row_get_def update_conv')

lemma py_str_Str: "py_str E (Str s) = s"
  by (simp add: py_str_def)

lemma length_add_assignee_column: "length (rows (add_assignee_column E df)) = length (rows df)"
  by (simp add: add_assignee_column_def Let_def series_def rows_set_column)

lemma length_add_title_body: "length (rows (add_title_body E df)) = length (rows df)"
  by (simp add: add_title_body_def Let_def rows_set_column)

section \<open>Field deriver\<close>

lemma row_body_update_title: "row_body E (AList.update ''title'' v r) = row_body E r"
  by (simp add: row_body_def row_get_update)

lemma rows_add_title_body:
  "rows (add_title_body E df) =
     map (\<lambda>r. AList.update ''body'' (Str (row_body E r))
                (AList.update ''title'' (Str (row_title E r)) r)) (rows df)"
  by (simp add: add_title_body_def Let_def rows_set_column zip_map2 zip_map1 zip_same_conv_map
      o_def row_body_update_title)

lemma row_title_spec:
  "row_title E r = derived_text_spec E (row_get r ''summary_update'') (row_get r ''summary'')"
  by (simp add: row_title_def derived_text_spec_def Let_def)

lemma row_body_spec:
  "row_body E r =
     derived_text_spec E (row_get r ''description_update'') (row_get r ''description'')"
  by (simp add: row_body_def derived_text_spec_def Let_def)

text \<open>
  C5. On every row the derived \<open>assignee\<close> is the identity-detail value when that column
  exists and the value is not null, else the plain assignment value when that column exists
  and the value is not null, else the empty string; it is always a string cell, never a
  missing value. (A value that is not a string is rendered by \<open>str\<close>.)
\<close>

theorem assignee_derivation:
  "map (\<lambda>r. row_get r ''assignee'') (rows (add_assignee_column E df)) =
   map (\<lambda>r. Some (Str (assignee_spec E df r))) (rows df)"
  by (simp add: add_assignee_column_def Let_def series_def rows_set_column has_col_set_column
      zip_map_map zip_map1 zip_map2 zip_same_conv_map cell_at_update row_get_update
      assignee_spec_def fillna_def isna_def astype_str_def o_def py_str_Str)

theorem assignee_derivation_witness:
  "map (\<lambda>r. row_get r ''assignee'') (rows (add_assignee_column ex_env ex_span)) =
   [Some (Str ''carol@x.org''), Some (Str ''''), Some (Str ''bob@x.org'')]"
  using assignee_derivation [of ex_env ex_span]
  by (simp add: ex_span_def assignee_spec_def has_col_def cell_at_def py_str_def)

text \<open>
  C6. The derived title (body) is the trimmed updated variant of the summary (description)
  when that is not empty, else the trimmed original variant when that is not empty, else
  the empty string. Pipeline B stores both as string cells on every row and keeps every
  row, whatever the candidates are.
\<close>

theorem title_body_derivation:
  "row_title E r = derived_text_spec E (row_get r ''summary_update'') (row_get r ''summary'') \<and>
   row_body E r =
     derived_text_spec E (row_get r ''description_update'') (row_get r ''description'') \<and>
   map (\<lambda>r. (row_get r ''title'', row_get r ''body'')) (rows (add_title_body E df)) =
     map (\<lambda>r. (Some (Str (row_title E r)), Some (Str (row_body E r)))) (rows df) \<and>
   length (rows (add_title_body E df)) = length (rows df)"
  by (simp add: row_title_spec [symmetric] row_body_spec [symmetric] rows_add_title_body
      row_get_update o_def)

theorem title_body_derivation_witness:
  "row_title ex_env (rows ex_span ! 1) = ''Crash on start'' \<and>
   row_title ex_env (rows ex_span ! 2) = '''' \<and>
   row_body ex_env (rows ex_span ! 2) = '''' \<and>
   length (rows (add_title_body ex_env ex_span)) = 3"
  using title_body_derivation [of ex_env "rows ex_span ! 1" ex_span]
    title_body_derivation [of ex_env "rows ex_span ! 2" ex_span]
  by (simp add: ex_span_def derived_text_spec_def row_get_def str_or_empty_def isna_def
      py_str_def strip_def isspace_def)

section \<open>Window filter\<close>

lemma mask_zip_map:
  "map fst (filter snd (zip xs (map g ys))) = map fst (filter (\<lambda>(x, y). g y) (zip xs ys))"
proof (induction xs arbitrary: ys)
  case Nil
  then show ?case by simp
next
  case (Cons x xs)
  then show ?case by (cases ys) auto
qed

lemma filter_zip_map2:
  "map fst (filter (\<lambda>(x, y). P y) (zip xs (map f ys))) =
   map fst (filter (\<lambda>(x, y). P (f y)) (zip xs ys))"
proof (induction xs arbitrary: ys)
  case Nil
  then show ?case by simp
next
  case (Cons x xs)
  then show ?case by (cases ys) auto
qed

lemma mask_same: "map fst (filter snd (zip xs (map g xs))) = filter g xs"
  by (induction xs) auto

lemma rows_select_series:
  "rows (select_rows (map g (series df c)) df) = filter (\<lambda>r. g (cell_at r c)) (rows df)"
  using mask_same [of "rows df" "\<lambda>r. g (cell_at r c)"]
  by (simp add: select_rows_def series_def o_def)

lemma columns_select_rows: "columns (select_rows m df) = columns df"
  by (simp add: select_rows_def)

lemma select_rows_eq:
  "select_rows m df = \<lparr>columns = columns df, rows = rows (select_rows m df)\<rparr>"
  by (simp add: select_rows_def)

lemma window_cell:
  "(notna (ts_cell p) \<and> cell_ge (ts_cell p) s \<and> cell_le (ts_cell p) e) = in_window s e p"
  by (cases p) (auto simp: notna_def isna_def ts_cell_def cell_ge_def cell_le_def in_window_def)

lemma ensure_raw:
  assumes "has_col df c" and "\<not> is_datetime64_any_dtype df c"
  shows "ensure_datetime_col E df c =
     Inr \<lparr>columns = AList.update c DatetimeD (columns df),
          rows = map (\<lambda>(r, p). AList.update c (ts_cell p) r)
                   (filter (\<lambda>(r, p). notna (ts_cell p))
                      (zip (rows df) (to_datetime E (series df c))))\<rparr>"
proof -
  define df1 where "df1 = set_column c DatetimeD (map ts_cell (to_datetime E (series df c))) df"
  define zs where "zs = zip (rows df) (to_datetime E (series df c))"
  have r1: "rows df1 = map (\<lambda>(r, p). AList.update c (ts_cell p) r) zs"
    by (simp add: df1_def zs_def rows_set_column zip_map2 case_prod_unfold)
  have "rows (select_rows (map notna (series df1 c)) df1) =
      map (\<lambda>(r, p). AList.update c (ts_cell p) r) (filter (\<lambda>(r, p). notna (ts_cell p)) zs)"
    unfolding rows_select_series r1
    by (simp add: filter_map o_def case_prod_unfold cell_at_update)
  moreover have "columns (select_rows (map notna (series df1 c)) df1) =
      AList.update c DatetimeD (columns df)"
    by (simp add: columns_select_rows df1_def columns_set_column)
  ultimately have "select_rows (map notna (series df1 c)) df1 =
      \<lparr>columns = AList.update c DatetimeD (columns df),
       rows = map (\<lambda>(r, p). AList.update c (ts_cell p) r)
                (filter (\<lambda>(r, p). notna (ts_cell p)) zs)\<rparr>"
    using select_rows_eq [of "map notna (series df1 c)" df1] by simp
  then show ?thesis
    using assms by (simp add: ensure_datetime_col_def Let_def df1_def zs_def)
qed

lemma filter_window_raw:
  assumes col: "has_col df ''creation_time''"
    and raw: "\<not> is_datetime64_any_dtype df ''creation_time''"
    and s: "Timestamp E (start @ ''T00:00:00Z'') = Some s"
    and e: "Timestamp E (end @ ''T23:59:59Z'') = Some e"
  shows "filter_window E df start end =
     Inr \<lparr>columns = AList.update ''creation_time'' DatetimeD (columns df),
          rows = map (\<lambda>(r, p). AList.update ''creation_time'' (ts_cell p) r)
                   (filter (\<lambda>(r, p). in_window s e p)
                      (zip (rows df) (to_datetime E (series df ''creation_time''))))\<rparr>"
proof -
  define zs where "zs = zip (rows df) (to_datetime E (series df ''creation_time''))"
  define D where "D = \<lparr>columns = AList.update ''creation_time'' DatetimeD (columns df),
          rows = map (\<lambda>(r, p). AList.update ''creation_time'' (ts_cell p) r)
                   (filter (\<lambda>(r, p). notna (ts_cell p)) zs)\<rparr>"
  define g where "g = (\<lambda>v. cell_ge v s \<and> cell_le v e)"
  have ens: "ensure_datetime_col E df ''creation_time'' = Inr D"
    unfolding D_def zs_def by (rule ensure_raw [OF col raw])
  have "filter (\<lambda>r. g (cell_at r ''creation_time''))
          (map (\<lambda>(r, p). AList.update ''creation_time'' (ts_cell p) r)
             (filter (\<lambda>(r, p). notna (ts_cell p)) ys)) =
        map (\<lambda>(r, p). AList.update ''creation_time'' (ts_cell p) r)
             (filter (\<lambda>(r, p). in_window s e p) ys)" for ys :: "(row \<times> int option) list"
    by (induction ys) (auto simp: g_def cell_at_update window_cell [symmetric])
  then have "rows (select_rows (map g (series D ''creation_time'')) D) =
      map (\<lambda>(r, p). AList.update ''creation_time'' (ts_cell p) r)
             (filter (\<lambda>(r, p). in_window s e p) zs)"
    unfolding rows_select_series by (simp add: D_def)
  then have "select_rows (map g (series D ''creation_time'')) D =
      \<lparr>columns = AList.update ''creation_time'' DatetimeD (columns df),
          rows = map (\<lambda>(r, p). AList.update ''creation_time'' (ts_cell p) r)
                   (filter (\<lambda>(r, p). in_window s e p) zs)\<rparr>"
    using select_rows_eq [of "map g (series D ''creation_time'')" D] by (simp add: D_def)
  then show ?thesis
    unfolding filter_window_def ens by (simp add: s e g_def zs_def)
qed

lemma window_mozilla_rows:
  assumes col: "has_col df ''creation_time''"
    and s: "Timestamp E (start @ ''T00:00:00Z'') = Some s"
    and e: "Timestamp E (end @ ''T23:59:59Z'') = Some e"
  shows "window_mozilla E df start end =
     Inr (df\<lparr>rows := map fst (filter (\<lambda>(r, p). in_window s e p)
                      (zip (rows df) (to_datetime E (series df ''creation_time''))))\<rparr>)"
  using col
  by (simp add: window_mozilla_def Let_def s e select_rows_def mask_zip_map filter_zip_map2
      window_cell)

lemma ensure_idem:
  assumes "ensure_datetime_col E df c = Inr d"
  shows "ensure_datetime_col E d c = Inr d"
proof -
  define df1 where "df1 = (if \<not> is_datetime64_any_dtype df c
       then set_column c DatetimeD (map ts_cell (to_datetime E (series df c))) df else df)"
  have col: "has_col df c" and d: "d = select_rows (map notna (series df1 c)) df1"
    using assms by (auto simp: ensure_datetime_col_def Let_def df1_def split: if_splits)
  have "has_col df1 c" using col by (simp add: df1_def has_col_set_column)
  then have hc: "has_col d c" by (simp add: d has_col_def columns_select_rows)
  have "is_datetime64_any_dtype df1 c"
    by (simp add: df1_def is_datetime64_any_dtype_def columns_set_column update_conv')
  then have dt: "is_datetime64_any_dtype d c"
    by (simp add: d is_datetime64_any_dtype_def columns_select_rows)
  have "rows d = filter (\<lambda>r. notna (cell_at r c)) (rows df1)"
    unfolding d by (rule rows_select_series)
  then have "rows (select_rows (map notna (series d c)) d) = rows d"
    unfolding rows_select_series by simp
  then have "select_rows (map notna (series d c)) d = d"
    using select_rows_eq [of "map notna (series d c)" d] by simp
  then show ?thesis using hc dt by (simp add: ensure_datetime_col_def)
qed

lemma filter_window_after_ensure:
  "(case ensure_datetime_col E df ''creation_time'' of
      Inl err \<Rightarrow> Inl err
    | Inr d \<Rightarrow> filter_window E d start end) = filter_window E df start end"
proof (cases "ensure_datetime_col E df ''creation_time''")
  case (Inl err)
  then show ?thesis by (simp add: filter_window_def)
next
  case (Inr d)
  then show ?thesis using ensure_idem [OF Inr] by (simp add: filter_window_def)
qed

lemma filter_window_all_Ts:
  assumes "filter_window E df0 start end = Inr df" and "r \<in> set (rows df)"
  shows "cell_at r ''creation_time'' = Ts (row_ts r)"
proof -
  obtain d s e where "df = select_rows
      (map (\<lambda>v. cell_ge v s \<and> cell_le v e) (series d ''creation_time'')) d"
    using assms(1) by (auto simp: filter_window_def split: sum.splits option.splits)
  then have "rows df = filter (\<lambda>r. cell_ge (cell_at r ''creation_time'') s \<and>
      cell_le (cell_at r ''creation_time'') e) (rows d)"
    by (simp add: rows_select_series)
  then have "cell_ge (cell_at r ''creation_time'') s" using assms(2) by simp
  then show ?thesis by (simp add: cell_ge_def row_ts_def split: cell.splits)
qed

text \<open>
  C2. On a loaded table that has the \<open>creation_time\<close> column (read from CSV, so not yet of
  a datetime dtype) and for two calendar dates the library accepts, the window filter
  returns exactly the rows whose creation time parsed to a timestamp inside the closed
  interval from \<open>start 00:00:00Z\<close> to \<open>end 23:59:59Z\<close>, in their order; a value that does not
  parse only drops its row. Pipeline A keeps the parsed timestamp in the column and gives
  the same result when \<open>ensure_datetime_col\<close> ran before, as in \<open>main\<close>; pipeline B keeps
  the rows unchanged.
\<close>

theorem window_filter_keeps_in_window_rows:
  assumes "has_col df ''creation_time''"
    and "\<not> is_datetime64_any_dtype df ''creation_time''"
    and "Timestamp E (start @ ''T00:00:00Z'') = Some s"
    and "Timestamp E (end @ ''T23:59:59Z'') = Some e"
  shows "filter_window E df start end =
           Inr \<lparr>columns = AList.update ''creation_time'' DatetimeD (columns df),
                rows = map (\<lambda>(r, p). AList.update ''creation_time'' (ts_cell p) r)
                         (filter (\<lambda>(r, p). in_window s e p)
                            (zip (rows df) (to_datetime E (series df ''creation_time''))))\<rparr> \<and>
         (case ensure_datetime_col E df ''creation_time'' of
            Inl err \<Rightarrow> Inl err
          | Inr d \<Rightarrow> filter_window E d start end) = filter_window E df start end \<and>
         window_mozilla E df start end =
           Inr (df\<lparr>rows := map fst (filter (\<lambda>(r, p). in_window s e p)
                            (zip (rows df) (to_datetime E (series df ''creation_time''))))\<rparr>)"
  using filter_window_raw [OF assms] window_mozilla_rows [OF assms(1,3,4)]
  by (simp add: filter_window_after_ensure)

theorem window_filter_keeps_in_window_rows_witness:
  "filter_window ex_env ex_raw ''2007-11-01'' ''2015-11-30'' = Inr ex_span \<and>
   window_mozilla ex_env ex_raw ''1999-06-01'' ''2021-02-28'' =
     Inr (ex_raw\<lparr>rows := [rows ex_raw ! 0, rows ex_raw ! 2, rows ex_raw ! 3, rows ex_raw ! 4]\<rparr>)"
proof -
  have c: "has_col ex_raw ''creation_time''"
    and r: "\<not> is_datetime64_any_dtype ex_raw ''creation_time''"
    by (simp_all add: has_col_def is_datetime64_any_dtype_def ex_raw_def)
  have a: "Timestamp ex_env (''2007-11-01'' @ ''T00:00:00Z'') = Some 1193875200000000000"
    "Timestamp ex_env (''2015-11-30'' @ ''T23:59:59Z'') = Some 1448927999000000000"
    and b: "Timestamp ex_env (''1999-06-01'' @ ''T00:00:00Z'') = Some 928195200000000000"
    "Timestamp ex_env (''2021-02-28'' @ ''T23:59:59Z'') = Some 1614556799000000000"
    by (simp_all add: ex_env_def ex_Timestamp_def)
  have p: "to_datetime ex_env (series ex_raw ''creation_time'') =
      [Some 1399969800000000000, None, Some 1199923200000000000, Some 1499990400000000000,
       Some 1300017600000000000]"
    by (simp add: ex_env_def ex_to_datetime_def series_def ex_raw_def cell_at_def)
  show ?thesis
    using window_filter_keeps_in_window_rows [OF c r a]
      window_filter_keeps_in_window_rows [OF c r b]
    by (simp add: p in_window_def ts_cell_def) (simp add: ex_raw_def ex_span_def)
qed

section \<open>Splitter\<close>

lemma round53_small: "p < 2 ^ 53 \<Longrightarrow> round53 p = p"
  by (simp add: round53_def Let_def floorlog_le_iff)

lemma round53_lower:
  assumes "2 ^ (floorlog 2 p - 53) dvd m" and "m \<le> p"
  shows "m \<le> round53 p"
proof (cases "floorlog 2 p \<le> 53")
  case True
  then show ?thesis using assms by (simp add: round53_def Let_def)
next
  case False
  define s where "s = floorlog 2 p - 53"
  obtain c where c: "m = c * 2 ^ s" using assms(1) by (auto simp: s_def dvd_def mult.commute)
  have "c \<le> p div 2 ^ s"
    using assms(2) c by (simp add: less_eq_div_iff_mult_less_eq)
  then have "m \<le> (p div 2 ^ s) * 2 ^ s" using c by simp
  also have "\<dots> \<le> round53 p"
    using False by (simp add: round53_def Let_def s_def)
  finally show ?thesis .
qed

lemma round53_upper: "2 * round53 p \<le> 2 * p + 2 ^ (floorlog 2 p - 53)"
proof (cases "floorlog 2 p \<le> 53")
  case True
  then show ?thesis by (simp add: round53_def Let_def)
next
  case False
  define s where "s = floorlog 2 p - 53"
  define q where "q = p div 2 ^ s"
  define r where "r = p mod 2 ^ s"
  have p: "p = q * 2 ^ s + r" unfolding q_def r_def by (rule div_mult_mod_eq [symmetric])
  have "round53 p = (if 2 * r > 2 ^ s \<or> (2 * r = 2 ^ s \<and> odd q) then q + 1 else q) * 2 ^ s"
    using False by (simp add: round53_def Let_def s_def q_def r_def)
  then have "2 * round53 p \<le> 2 * (q * 2 ^ s) + 2 * r + 2 ^ s"
    by (auto simp: algebra_simps)
  then have "2 * round53 p \<le> 2 * p + 2 ^ s" using p by linarith
  then show ?thesis unfolding s_def .
qed

lemma shift_le_49:
  assumes "n \<le> 2 ^ 50"
  shows "floorlog 2 (n * 3602879701896397) - 53 \<le> 49"
proof -
  have "n * 3602879701896397 \<le> 2 ^ 50 * (3602879701896397::nat)"
    using assms by simp
  also have "\<dots> < 2 ^ 102" by simp
  finally have "floorlog 2 (n * 3602879701896397) \<le> 102"
    by (simp add: floorlog_le_iff)
  then show ?thesis by simp
qed

lemma int_mul_0_80_exact:
  assumes "n \<le> 2 ^ 50"
  shows "int_mul_0_80 n = (4 * n) div 5"
proof -
  define P where "P = n * 3602879701896397"
  define s where "s = floorlog 2 P - 53"
  define a where "a = (4 * n) div 5"
  define b where "b = (4 * n) mod 5"
  define T :: nat where "T = 2 ^ 52"
  have n53: "n < 2 ^ 53" using assms by (rule le_less_trans) simp
  have s49: "s \<le> 49" using shift_le_49 [OF assms] by (simp add: s_def P_def)
  have ab: "4 * n = 5 * a + b" and b: "b < 5" by (simp_all add: a_def b_def)
  have T: "T = 4503599627370496" by (simp add: T_def)
  have P5: "5 * P = 4 * n * T + n" by (simp add: P_def T)
  have nT: "4 * n \<le> T" using assms by (simp add: T)
  have "(2::nat) ^ s \<le> 2 ^ 49" by (rule power_increasing) (use s49 in simp_all)
  then have s2: "(2::nat) ^ s \<le> 562949953421312" by simp
  have "4 * n * T = 5 * (a * T) + b * T" using ab by (simp add: algebra_simps)
  then have P5': "5 * P = 5 * (a * T) + b * T + n" using P5 by simp
  have bT: "b * T \<le> 4 * T" using b by simp
  have low: "a * T \<le> P" using P5' by linarith
  have "2 ^ s dvd (2::nat) ^ 52" using s49 by (intro le_imp_power_dvd) simp
  then have dv: "2 ^ s dvd a * T" by (simp add: T_def)
  have lo: "a * T \<le> round53 P" using round53_lower [of P "a * T"] dv low by (simp add: s_def)
  have "2 * round53 P \<le> 2 * P + 2 ^ s" using round53_upper [of P] by (simp add: s_def)
  then have "10 * round53 P \<le> 10 * P + 5 * 2 ^ s" by linarith
  also have "\<dots> \<le> 10 * (a * T) + 8 * T + 2 * n + 5 * 2 ^ s" using P5' bT by linarith
  also have "\<dots> < 10 * (a * T) + 10 * T" using nT s2 T by linarith
  finally have hi: "round53 P < (a + 1) * T" by (simp add: algebra_simps)
  have "round53 P div T = a"
    using lo hi by (intro div_nat_eqI) (simp_all add: algebra_simps)
  then show ?thesis
    by (simp add: int_mul_0_80_def round53_small [OF n53] P_def T_def a_def)
qed

lemma int_mul_0_10_exact:
  assumes "n \<le> 2 ^ 50"
  shows "int_mul_0_10 n = n div 10"
proof -
  define P where "P = n * 3602879701896397"
  define s where "s = floorlog 2 P - 53"
  define a where "a = n div 10"
  define b where "b = n mod 10"
  define T :: nat where "T = 2 ^ 55"
  have n53: "n < 2 ^ 53" using assms by (rule le_less_trans) simp
  have s49: "s \<le> 49" using shift_le_49 [OF assms] by (simp add: s_def P_def)
  have ab: "n = 10 * a + b" and b: "b < 10" by (simp_all add: a_def b_def)
  have T: "T = 36028797018963968" by (simp add: T_def)
  have P10: "10 * P = n * T + 2 * n" by (simp add: P_def T)
  have nT: "32 * n \<le> T" using assms by (simp add: T)
  have "(2::nat) ^ s \<le> 2 ^ 49" by (rule power_increasing) (use s49 in simp_all)
  then have s2: "(2::nat) ^ s \<le> 562949953421312" by simp
  have "n * T = 10 * (a * T) + b * T" using ab by (simp add: algebra_simps)
  then have P10': "10 * P = 10 * (a * T) + b * T + 2 * n" using P10 by simp
  have bT: "b * T \<le> 9 * T" using b by simp
  have low: "a * T \<le> P" using P10' by linarith
  have "2 ^ s dvd (2::nat) ^ 55" using s49 by (intro le_imp_power_dvd) simp
  then have dv: "2 ^ s dvd a * T" by (simp add: T_def)
  have lo: "a * T \<le> round53 P" using round53_lower [of P "a * T"] dv low by (simp add: s_def)
  have "2 * round53 P \<le> 2 * P + 2 ^ s" using round53_upper [of P] by (simp add: s_def)
  then have "10 * round53 P \<le> 10 * P + 5 * 2 ^ s" by linarith
  also have "\<dots> \<le> 10 * (a * T) + 9 * T + 2 * n + 5 * 2 ^ s" using P10' bT by linarith
  also have "\<dots> < 10 * (a * T) + 10 * T" using nT s2 T by linarith
  finally have hi: "round53 P < (a + 1) * T" by (simp add: algebra_simps)
  have "round53 P div T = a"
    using lo hi by (intro div_nat_eqI) (simp_all add: algebra_simps)
  then show ?thesis
    by (simp add: int_mul_0_10_def round53_small [OF n53] P_def T_def a_def)
qed

lemma split_80_10_10_eq:
  assumes "n \<le> 2 ^ 50"
  shows "split_80_10_10 n xs =
    (take (4 * n div 5) xs,
     take (n div 10) (drop (4 * n div 5) xs),
     drop (4 * n div 5 + n div 10) xs)"
  by (simp add: split_80_10_10_def Let_def iloc_def int_mul_0_80_exact [OF assms]
      int_mul_0_10_exact [OF assms] drop_take)

lemma split_80_10_10_map:
  "split_80_10_10 n (map f p) =
     (case split_80_10_10 n p of (a, b, c) \<Rightarrow> (map f a, map f b, map f c))"
  by (simp add: split_80_10_10_def Let_def iloc_def take_map drop_map)

lemma split_80_10_10_append:
  "(case split_80_10_10 n xs of (a, b, c) \<Rightarrow> a @ b @ c) = xs"
proof -
  have "take m xs @ drop m (take (m + k) xs) @ drop (m + k) xs = xs" for m k
  proof -
    have "take m xs = take m (take (m + k) xs)" by (simp add: min_def)
    then have "take m xs @ drop m (take (m + k) xs) = take (m + k) xs"
      by (metis append_take_drop_id)
    then show ?thesis by (metis append_assoc append_take_drop_id)
  qed
  then show ?thesis by (simp add: split_80_10_10_def Let_def iloc_def)
qed

lemma perm_positions:
  assumes "mset p = mset [0..<n]"
  shows "length p = n" and "distinct p" and "set p = {0..<n}"
proof -
  show "length p = n" using assms by (metis length_upt mset_eq_length diff_zero)
  show "distinct p" using assms by (metis distinct_upt mset_eq_imp_distinct_iff)
  show "set p = {0..<n}" using assms by (metis mset_eq_setD set_upt)
qed

lemma mset_map_nth_perm:
  assumes "mset p = mset [0..<length xs]"
  shows "mset (map (\<lambda>i. xs ! i) p) = mset xs"
proof -
  have "mset (map (\<lambda>i. xs ! i) p) = image_mset (\<lambda>i. xs ! i) (mset p)" by simp
  also have "\<dots> = mset (map (\<lambda>i. xs ! i) [0..<length xs])" using assms by simp
  also have "\<dots> = mset xs" by (simp add: map_nth)
  finally show ?thesis .
qed

text \<open>
  C1. When the sampler returns a permutation of the row positions, the three slices are
  consecutive pieces of that one permutation: the position lists are pairwise disjoint and
  together are all positions, the slices hold the rows at those positions (so together
  they hold every row of the record set exactly once), the test slice has the
  \<open>n - train - valid\<close> rows that are left, and the three sizes add up to \<open>n\<close>. Deriving the
  fields keeps the number of rows, so \<open>n\<close> is the number of in-window rows after
  reconciliation. The train and validation sizes are \<open>\<lfloor>0.80 n\<rfloor>\<close> and \<open>\<lfloor>0.10 n\<rfloor>\<close>: the
  code computes them in double precision, which is exact for every \<open>n\<close> up to \<open>2^50\<close>
  (about \<open>10^15\<close> rows, far beyond a table held in memory).
\<close>

theorem split_partition:
  assumes perm: "mset (sample_perm E sd (length (rows df))) = mset [0..<length (rows df)]"
  shows "case split_frame E sd df of (train, valid, test) \<Rightarrow>
         case split_80_10_10 (length (rows df)) (sample_perm E sd (length (rows df))) of
           (itr, iva, ite) \<Rightarrow>
           rows train = map (\<lambda>i. rows df ! i) itr \<and>
           rows valid = map (\<lambda>i. rows df ! i) iva \<and>
           rows test = map (\<lambda>i. rows df ! i) ite \<and>
           itr @ iva @ ite = sample_perm E sd (length (rows df)) \<and>
           set itr \<inter> set iva = {} \<and> set itr \<inter> set ite = {} \<and> set iva \<inter> set ite = {} \<and>
           distinct itr \<and> distinct iva \<and> distinct ite \<and>
           set itr \<union> set iva \<union> set ite = {0..<length (rows df)} \<and>
           mset (rows train) + mset (rows valid) + mset (rows test) = mset (rows df) \<and>
           length (rows test) = length (rows df) - length (rows train) - length (rows valid) \<and>
           length (rows train) + length (rows valid) + length (rows test) = length (rows df) \<and>
           (length (rows df) \<le> 2 ^ 50 \<longrightarrow>
              length (rows train) = 4 * length (rows df) div 5 \<and>
              length (rows valid) = length (rows df) div 10) \<and>
           length (rows (add_assignee_column E d)) = length (rows d) \<and>
           length (rows (add_title_body E d)) = length (rows d)"
proof -
  define n where "n = length (rows df)"
  define p where "p = sample_perm E sd n"
  obtain itr iva ite where s: "split_80_10_10 n p = (itr, iva, ite)"
    by (cases "split_80_10_10 n p") auto
  have len: "length p = n" and dist: "distinct p" and setp: "set p = {0..<n}"
    using perm_positions [of p n] perm by (simp_all add: p_def n_def)
  have app: "itr @ iva @ ite = p" using split_80_10_10_append [of n p] s by simp
  have sizes: "itr = take (4 * n div 5) p \<and> iva = take (n div 10) (drop (4 * n div 5) p)"
    if "n \<le> 2 ^ 50"
    using split_80_10_10_eq [of n p] that s by simp
  have l1: "n \<le> 2 ^ 50 \<longrightarrow> length itr = 4 * n div 5 \<and> length iva = n div 10"
    using sizes len by auto
  have l3: "length itr + length iva + length ite = n"
    using app len by (metis length_append add.assoc)
  have d: "distinct (itr @ iva @ ite)" using app dist by simp
  have u: "set itr \<union> set iva \<union> set ite = {0..<n}"
    using app setp by (metis set_append Un_assoc)
  have fr: "split_frame E sd df =
     ((sample_frac1 E sd df)\<lparr>rows := map (\<lambda>i. rows df ! i) itr\<rparr>,
      (sample_frac1 E sd df)\<lparr>rows := map (\<lambda>i. rows df ! i) iva\<rparr>,
      (sample_frac1 E sd df)\<lparr>rows := map (\<lambda>i. rows df ! i) ite\<rparr>)"
    using s by (simp add: split_frame_def Let_def sample_frac1_def split_80_10_10_map p_def n_def)
  have "mset (map (\<lambda>i. rows df ! i) (itr @ iva @ ite)) = mset (rows df)"
    using mset_map_nth_perm [of p "rows df"] perm app by (simp add: p_def n_def)
  then have m: "mset (map (\<lambda>i. rows df ! i) itr) + mset (map (\<lambda>i. rows df ! i) iva)
      + mset (map (\<lambda>i. rows df ! i) ite) = mset (rows df)"
    by (simp add: add.assoc)
  have dj: "set itr \<inter> set iva = {}" "set itr \<inter> set ite = {}" "set iva \<inter> set ite = {}"
    "distinct itr" "distinct iva" "distinct ite"
    using d by auto
  have l4: "length ite = n - length itr - length iva" using l3 by linarith
  show ?thesis
    unfolding fr using s app dj u m l1 l3 l4
    by (simp add: p_def [symmetric] n_def [symmetric] Int_Un_distrib
        length_add_assignee_column length_add_title_body)
qed

theorem split_partition_witness:
  "map rows (case split_frame ex_env 3407 (add_assignee_column ex_env ex_span) of
              (train, valid, test) \<Rightarrow> [train, valid, test]) =
     [[rows (add_assignee_column ex_env ex_span) ! 2, rows (add_assignee_column ex_env ex_span) ! 1],
      [], [rows (add_assignee_column ex_env ex_span) ! 0]] \<and>
   split_80_10_10 3 (sample_perm ex_env 3407 3) = ([2, 1], [], [0])"
proof -
  have l: "length (rows (add_assignee_column ex_env ex_span)) = 3"
    by (simp add: length_add_assignee_column ex_span_def)
  have p: "sample_perm ex_env 3407 3 = [2, 1, 0]"
    by (simp add: ex_env_def upt_rec)
  have h1: "mset (sample_perm ex_env 3407 (length (rows (add_assignee_column ex_env ex_span)))) =
      mset [0..<length (rows (add_assignee_column ex_env ex_span))]"
    unfolding l p by (simp add: upt_rec)
  have h2: "length (rows (add_assignee_column ex_env ex_span)) \<le> 2 ^ 50"
    unfolding l by simp
  have s: "split_80_10_10 3 [2, 1, 0 :: nat] = ([2, 1], [], [0])"
    using split_80_10_10_eq [of 3 "[2, 1, 0 :: nat]"] by simp
  show ?thesis
    using split_partition [OF h1] h2 unfolding l p s
    by (cases "split_frame ex_env 3407 (add_assignee_column ex_env ex_span)") simp
qed

section \<open>Count reconciler: sorting and trimming\<close>

lemma ex_span_in_window:
  "filter_window ex_env ex_raw ''2007-11-01'' ''2015-11-30'' = Inr ex_span"
proof -
  have c: "has_col ex_raw ''creation_time''"
    and r: "\<not> is_datetime64_any_dtype ex_raw ''creation_time''"
    by (simp_all add: has_col_def is_datetime64_any_dtype_def ex_raw_def)
  have a: "Timestamp ex_env (''2007-11-01'' @ ''T00:00:00Z'') = Some 1193875200000000000"
    "Timestamp ex_env (''2015-11-30'' @ ''T23:59:59Z'') = Some 1448927999000000000"
    by (simp_all add: ex_env_def ex_Timestamp_def)
  have p: "to_datetime ex_env (series ex_raw ''creation_time'') =
      [Some 1399969800000000000, None, Some 1199923200000000000, Some 1499990400000000000,
       Some 1300017600000000000]"
    by (simp add: ex_env_def ex_to_datetime_def series_def ex_raw_def cell_at_def)
  show ?thesis
    unfolding filter_window_raw [OF c r a] p
    by (simp add: in_window_def ts_cell_def ex_raw_def ex_span_def)
qed

lemma ex_argsort_span: "argsort ex_env (series ex_span ''creation_time'') = [1, 2, 0]"
  by (simp add: ex_env_def ex_argsort_def series_def ex_span_def cell_at_def upt_rec)

lemma ex_argsort_ok: "argsort_ok ex_env ex_span"
  unfolding argsort_ok_def ex_argsort_span Let_def
  by (simp add: ex_span_def row_ts_def cell_at_def upt_rec)

lemma rows_sort_values:
  "rows (sort_values E c df) = map (\<lambda>i. rows df ! i) (argsort E (series df c))"
  by (simp add: sort_values_def)

lemma trim_keeps_oldest:
  assumes win: "filter_window E df0 start end = Inr df"
    and srt: "argsort_ok E df"
    and pos: "0 < target"
    and le: "target \<le> int (length (rows df))"
  shows "snd (reconcile_eclipse E target allow df) =
           Inr (df\<lparr>rows := take (nat target) (rows (sort_values E ''creation_time'' df))\<rparr>)"
    and "length (take (nat target) (rows (sort_values E ''creation_time'' df))) = nat target"
    and "mset (take (nat target) (rows (sort_values E ''creation_time'' df))) +
         mset (drop (nat target) (rows (sort_values E ''creation_time'' df))) = mset (rows df)"
    and "sorted (map row_ts (take (nat target) (rows (sort_values E ''creation_time'' df))))"
    and "\<forall>k \<in> set (take (nat target) (rows (sort_values E ''creation_time'' df))).
         \<forall>x \<in> set (drop (nat target) (rows (sort_values E ''creation_time'' df))).
           row_ts k \<le> row_ts x"
    and "\<forall>r \<in> set (rows df). cell_at r ''creation_time'' = Ts (row_ts r)"
proof -
  define p where "p = argsort E (series df ''creation_time'')"
  define srows where "srows = rows (sort_values E ''creation_time'' df)"
  have perm: "mset p = mset [0..<length (rows df)]"
    and asc: "sorted (map (\<lambda>i. row_ts (rows df ! i)) p)"
    using srt by (simp_all add: argsort_ok_def Let_def p_def)
  have sr: "srows = map (\<lambda>i. rows df ! i) p" by (simp add: srows_def rows_sort_values p_def)
  have lp: "length p = length (rows df)" using perm by (metis length_upt mset_eq_length diff_zero)
  have ls: "length srows = length (rows df)" by (simp add: sr lp)
  have ms: "mset srows = mset (rows df)" unfolding sr by (rule mset_map_nth_perm [OF perm])
  have so: "sorted (map row_ts srows)" using asc by (simp add: sr o_def)
  show "snd (reconcile_eclipse E target allow df) = Inr (df\<lparr>rows := take (nat target) srows\<rparr>)"
    using pos le by (simp add: reconcile_eclipse_def Let_def head_def sort_values_def srows_def)
  show "length (take (nat target) srows) = nat target" using le pos by (simp add: ls)
  have "mset (take (nat target) srows) + mset (drop (nat target) srows) = mset srows"
    by (metis append_take_drop_id mset_append)
  then show "mset (take (nat target) srows) + mset (drop (nat target) srows) = mset (rows df)"
    using ms by simp
  have so': "sorted (map row_ts (take (nat target) srows) @ map row_ts (drop (nat target) srows))"
    using so by (metis append_take_drop_id map_append)
  show "sorted (map row_ts (take (nat target) srows))"
    using so' by (simp add: sorted_append)
  show "\<forall>k \<in> set (take (nat target) srows). \<forall>x \<in> set (drop (nat target) srows).
      row_ts k \<le> row_ts x"
    using so' by (auto simp: sorted_append)
  show "\<forall>r \<in> set (rows df). cell_at r ''creation_time'' = Ts (row_ts r)"
    using filter_window_all_Ts [OF win] by blast
qed

lemma below_target_fails:
  assumes "int (length (rows df)) < target"
  shows "reconcile_eclipse E target False df =
     ([], Inl (ValueError [S ''Only '', N (int (length (rows df))),
                          S '' rows in window (< target '', N target, S ''). '',
                          S ''Re-run after augmenting or use --allow_below_target'', S ''.'']))"
  using assms by (simp add: reconcile_eclipse_def Let_def)

section \<open>Loader\<close>

lemma loader_first_attempt:
  "read_csv E path enc = Inr df \<Longrightarrow>
   read_csv_with_fallback E path enc = ([], Inr (df, ''utf-8''))"
  by (simp add: read_csv_with_fallback_def)

lemma loader_fallback:
  "read_csv E path enc = Inl UnicodeDecodeError \<Longrightarrow> read_csv E path ''latin-1'' = Inr df \<Longrightarrow>
   read_csv_with_fallback E path enc =
     ([[S ''Warning: could not decode '', R path, S '' with '', S enc, S '', retrying latin-1'']],
      Inr (df, ''latin-1''))"
  by (simp add: read_csv_with_fallback_def)

text \<open>
  C7. The loader is meant to return the encoding that decoded the file. On a file that
  decodes as \<open>cp1252\<close> and not as \<open>utf-8\<close>, read with the preferred encoding \<open>cp1252\<close>, the
  first attempt succeeds and the loader returns the table with the label \<open>utf-8\<close>: the
  first branch returns that literal, not its argument.
\<close>

theorem loader_labels_first_attempt_utf8:
  "read_csv cp1252_env ''bugs.csv'' ''utf-8'' = Inl UnicodeDecodeError \<and>
   read_csv cp1252_env ''bugs.csv'' ''cp1252'' = Inr ex_raw \<and>
   read_csv_with_fallback cp1252_env ''bugs.csv'' ''cp1252'' = ([], Inr (ex_raw, ''utf-8''))"
  by (simp add: read_csv_with_fallback_def cp1252_env_def)

section \<open>Top-level orchestration\<close>

lemma files_print: "files (print m w) = files w" and dirs_print: "dirs (print m w) = dirs w"
  and files_prints: "files (prints ms w) = files w" and dirs_prints: "dirs (prints ms w) = dirs w"
  by (simp_all add: print_def prints_def)

lemma ex_window_mozilla:
  "window_mozilla ex_env ex_raw ''1999-06-01'' ''2021-02-28'' =
     Inr (ex_raw\<lparr>rows := [rows ex_raw ! 0, rows ex_raw ! 2, rows ex_raw ! 3, rows ex_raw ! 4]\<rparr>)"
proof -
  have c: "has_col ex_raw ''creation_time''"
    by (simp add: has_col_def ex_raw_def)
  have b: "Timestamp ex_env (''1999-06-01'' @ ''T00:00:00Z'') = Some 928195200000000000"
    "Timestamp ex_env (''2021-02-28'' @ ''T23:59:59Z'') = Some 1614556799000000000"
    by (simp_all add: ex_env_def ex_Timestamp_def)
  have p: "to_datetime ex_env (series ex_raw ''creation_time'') =
      [Some 1399969800000000000, None, Some 1199923200000000000, Some 1499990400000000000,
       Some 1300017600000000000]"
    by (simp add: ex_env_def ex_to_datetime_def series_def ex_raw_def cell_at_def)
  show ?thesis
    unfolding window_mozilla_rows [OF c b] p
    by (simp add: in_window_def ex_raw_def)
qed

section \<open>Count reconciler: the policies in a run\<close>

lemma main_eclipse_after_window:
  assumes p: "resolve_csv_path E (eclipse_csv a) = (msp, Inr csv_path)"
    and r: "read_csv_with_fallback E csv_path (encoding a) = (msr, Inr (df_raw, enc))"
    and f: "filter_window E df_raw (start_date a) (end_date a) = Inr df"
  shows "main_eclipse E a w =
     (case reconcile_eclipse E (target_exact a) (allow_below_target a) df of
        (ms2, Inl err) \<Rightarrow>
          (prints ms2 (prints msr (print [S arrow, S '' Loading CSV: '', S (abspath E csv_path)]
             (prints msp w))), Some err)
      | (ms2, Inr d) \<Rightarrow>
          (emit_eclipse E a csv_path enc d
             (prints ms2 (prints msr (print [S arrow, S '' Loading CSV: '', S (abspath E csv_path)]
                (prints msp w)))), None))"
proof -
  obtain d where d: "ensure_datetime_col E df_raw ''creation_time'' = Inr d"
    using f by (cases "ensure_datetime_col E df_raw ''creation_time''")
      (simp_all add: filter_window_def)
  have f': "filter_window E d (start_date a) (end_date a) = Inr df"
    using filter_window_after_ensure [where E = E and df = df_raw] d f by simp
  show ?thesis
    by (simp add: main_eclipse_def p r d f' Let_def)
qed

lemma main_mozilla_after_window:
  assumes p: "path_exists E (mozilla_csv b)"
    and r: "read_csv_with_fallback E (mozilla_csv b) (encoding b) = (msr, Inr (df_raw, enc))"
    and f: "window_mozilla E df_raw (start_date b) (end_date b) = Inr df"
  shows "main_mozilla E b w =
     (case reconcile_mozilla (expect_count b) (no_strict_count b) df of
        (ms2, Inl err) \<Rightarrow>
          (prints ms2 (print [S ''  In-span rows (kept): '', N (int (length (rows df)))]
             (prints msr (print [S arrow, S '' Loading CSV: '', S (abspath E (mozilla_csv b))] w))),
           Some err)
      | (ms2, Inr d) \<Rightarrow>
          (emit_mozilla E b enc d
             (prints ms2 (print [S ''  In-span rows (kept): '', N (int (length (rows df)))]
                (prints msr (print [S arrow, S '' Loading CSV: '', S (abspath E (mozilla_csv b))]
                   w)))), None))"
  by (simp add: main_mozilla_def p r f Let_def)

lemma prints_Nil: "prints [] w = w"
  by (simp add: prints_def)

lemma ex_load:
  "resolve_csv_path ex_env ''bugs.csv'' = ([], Inr ''bugs.csv'')"
  "read_csv_with_fallback ex_env ''bugs.csv'' ''utf-8'' = ([], Inr (ex_raw, ''utf-8''))"
  "path_exists ex_env ''bugs.csv''"
  by (simp_all add: resolve_csv_path_def read_csv_with_fallback_def ex_env_def)

text \<open>
  C3, as amended. In pipeline A, when the target is positive and at most the number of
  in-window rows, and the library's sort orders the frame by creation time, the reconciler
  keeps the first \<open>target\<close> rows of that order: exactly \<open>target\<close> rows, ascending by creation
  time, every one of them at most as late as every row left out, kept and left-out rows
  together being the in-window rows. When the number of in-window rows is below the target
  and the override flag is not set, the reconciler raises a \<open>ValueError\<close> whose message
  gives the number of rows and the target, and the run ends with that error.
\<close>

theorem trim_to_target:
  assumes "filter_window E df0 start end = Inr df"
    and "argsort_ok E df"
    and "0 < target"
    and "target \<le> int (length (rows df))"
  shows "snd (reconcile_eclipse E target allow df) =
           Inr (df\<lparr>rows := take (nat target) (rows (sort_values E ''creation_time'' df))\<rparr>) \<and>
         length (take (nat target) (rows (sort_values E ''creation_time'' df))) = nat target \<and>
         mset (take (nat target) (rows (sort_values E ''creation_time'' df))) +
           mset (drop (nat target) (rows (sort_values E ''creation_time'' df))) = mset (rows df) \<and>
         sorted (map row_ts (take (nat target) (rows (sort_values E ''creation_time'' df)))) \<and>
         (\<forall>k \<in> set (take (nat target) (rows (sort_values E ''creation_time'' df))).
          \<forall>x \<in> set (drop (nat target) (rows (sort_values E ''creation_time'' df))).
            row_ts k \<le> row_ts x) \<and>
         (\<forall>r \<in> set (rows df). cell_at r ''creation_time'' = Ts (row_ts r)) \<and>
         (int (length (rows df')) < target' \<longrightarrow>
            reconcile_eclipse E' target' False df' =
              ([], Inl (ValueError [S ''Only '', N (int (length (rows df'))),
                                   S '' rows in window (< target '', N target', S ''). '',
                                   S ''Re-run after augmenting or use --allow_below_target'',
                                   S ''.'']))) \<and>
         (resolve_csv_path E' (eclipse_csv a) = (msp, Inr csv_path) \<and>
          read_csv_with_fallback E' csv_path (encoding a) = (msr, Inr (df_raw, enc)) \<and>
          filter_window E' df_raw (start_date a) (end_date a) = Inr df' \<and>
          int (length (rows df')) < target_exact a \<and> \<not> allow_below_target a \<longrightarrow>
            snd (main_eclipse E' a w) =
              Some (ValueError [S ''Only '', N (int (length (rows df'))),
                                S '' rows in window (< target '', N (target_exact a), S ''). '',
                                S ''Re-run after augmenting or use --allow_below_target'',
                                S ''.'']))"
proof -
  have run: "snd (main_eclipse E' a w) =
      Some (ValueError [S ''Only '', N (int (length (rows df'))),
                        S '' rows in window (< target '', N (target_exact a), S ''). '',
                        S ''Re-run after augmenting or use --allow_below_target'', S ''.''])"
    if "resolve_csv_path E' (eclipse_csv a) = (msp, Inr csv_path)"
      and "read_csv_with_fallback E' csv_path (encoding a) = (msr, Inr (df_raw, enc))"
      and "filter_window E' df_raw (start_date a) (end_date a) = Inr df'"
      and "int (length (rows df')) < target_exact a" and "\<not> allow_below_target a"
    using main_eclipse_after_window [OF that(1,2,3), of w]
      below_target_fails [OF that(4), of E'] that(5)
    by simp
  show ?thesis
    using trim_keeps_oldest [OF assms]
      below_target_fails [where df = df' and target = target' and E = E'] run
    by blast
qed

theorem trim_to_target_witness:
  "snd (reconcile_eclipse ex_env 2 False ex_span) =
     Inr (ex_span\<lparr>rows := [rows ex_span ! 1, rows ex_span ! 2]\<rparr>) \<and>
   map row_ts [rows ex_span ! 1, rows ex_span ! 2] = [1199923200000000000, 1300017600000000000] \<and>
   drop 2 (rows (sort_values ex_env ''creation_time'' ex_span)) = [rows ex_span ! 0] \<and>
   row_ts (rows ex_span ! 0) = 1399969800000000000 \<and>
   reconcile_eclipse ex_env 16106 False ex_span =
     ([], Inl (ValueError [S ''Only '', N 3, S '' rows in window (< target '', N 16106, S ''). '',
                          S ''Re-run after augmenting or use --allow_below_target'', S ''.''])) \<and>
   snd (main_eclipse ex_env ex_args_eclipse ex_world) =
     Some (ValueError [S ''Only '', N 3, S '' rows in window (< target '', N 16106, S ''). '',
                      S ''Re-run after augmenting or use --allow_below_target'', S ''.''])"
proof -
  have l: "length (rows ex_span) = 3" by (simp add: ex_span_def)
  have h: "(0::int) < 2" "2 \<le> int (length (rows ex_span))" "int (length (rows ex_span)) < 16106"
    by (simp_all add: l)
  have s: "rows (sort_values ex_env ''creation_time'' ex_span) =
      [rows ex_span ! 1, rows ex_span ! 2, rows ex_span ! 0]"
    by (simp add: rows_sort_values ex_argsort_span)
  have t: "map row_ts [rows ex_span ! 1, rows ex_span ! 2, rows ex_span ! 0] =
      [1199923200000000000, 1300017600000000000, 1399969800000000000]"
    by (simp add: ex_span_def row_ts_def cell_at_def)
  have a: "eclipse_csv ex_args_eclipse = ''bugs.csv''" "encoding ex_args_eclipse = ''utf-8''"
    "start_date ex_args_eclipse = ''2007-11-01''" "end_date ex_args_eclipse = ''2015-11-30''"
    "target_exact ex_args_eclipse = 16106" "\<not> allow_below_target ex_args_eclipse"
    by (simp_all add: ex_args_eclipse_def)
  show ?thesis
    using trim_to_target [OF ex_span_in_window ex_argsort_ok h(1,2), where allow = False
        and df' = ex_span and target' = 16106 and E' = ex_env and a = ex_args_eclipse
        and msp = "[]" and csv_path = "''bugs.csv''" and msr = "[]" and df_raw = ex_raw
        and enc = "''utf-8''" and w = ex_world] h(3) t
    by (simp add: s l a ex_load ex_span_in_window)
qed

theorem trim_to_target_counterexample:
  "(0::int) \<le> int (length (rows ex_span)) \<and>
   reconcile_eclipse ex_env 0 False ex_span = ([], Inr ex_span) \<and>
   length (rows ex_span) = 3"
  by (simp add: reconcile_eclipse_def ex_span_def)

text \<open>
  C4, as amended. In pipeline B, when the expected count is not zero and differs from the
  number of in-window rows, the reconciler raises a \<open>ValueError\<close> whose message gives both
  numbers, and the run ends with that error, unless the non-strict override is set: then
  it prints a warning with both numbers and goes on. When the counts agree nothing is
  printed. Whenever the reconciler returns, it returns the in-window frame unchanged, and
  the run derives, splits and emits exactly that frame.
\<close>

theorem exact_match_policy:
  "(expect \<noteq> 0 \<and> int (length (rows df)) \<noteq> expect \<longrightarrow>
      reconcile_mozilla expect False df =
        ([], Inl (ValueError [S ''In-span rows '', N (int (length (rows df))),
                             S '' != expected '', N expect, S ''. '',
                             S ''Rerun with --no_strict_count if you want to proceed anyway.''])) \<and>
      reconcile_mozilla expect True df =
        ([[S ''  WARNING: In-span rows '', N (int (length (rows df))),
           S '' != expected '', N expect, S '' (continuing).'']], Inr df)) \<and>
   (int (length (rows df)) = expect \<longrightarrow> reconcile_mozilla expect nonstrict df = ([], Inr df)) \<and>
   (case snd (reconcile_mozilla expect nonstrict df) of Inl err \<Rightarrow> True | Inr d \<Rightarrow> d = df) \<and>
   (path_exists E (mozilla_csv b) \<and>
    read_csv_with_fallback E (mozilla_csv b) (encoding b) = (msr, Inr (df_raw, enc)) \<and>
    window_mozilla E df_raw (start_date b) (end_date b) = Inr df \<longrightarrow>
      (expect_count b \<noteq> 0 \<and> int (length (rows df)) \<noteq> expect_count b \<and> \<not> no_strict_count b \<longrightarrow>
         snd (main_mozilla E b w) =
           Some (ValueError [S ''In-span rows '', N (int (length (rows df))),
                             S '' != expected '', N (expect_count b), S ''. '',
                             S ''Rerun with --no_strict_count if you want to proceed anyway.''])) \<and>
      (expect_count b \<noteq> 0 \<and> int (length (rows df)) \<noteq> expect_count b \<and> no_strict_count b \<longrightarrow>
         main_mozilla E b w =
           (emit_mozilla E b enc df
              (print [S ''  WARNING: In-span rows '', N (int (length (rows df))),
                      S '' != expected '', N (expect_count b), S '' (continuing).'']
                 (print [S ''  In-span rows (kept): '', N (int (length (rows df)))]
                    (prints msr
                       (print [S arrow, S '' Loading CSV: '', S (abspath E (mozilla_csv b))] w)))),
            None)) \<and>
      (int (length (rows df)) = expect_count b \<longrightarrow>
         main_mozilla E b w =
           (emit_mozilla E b enc df
              (print [S ''  In-span rows (kept): '', N (int (length (rows df)))]
                 (prints msr
                    (print [S arrow, S '' Loading CSV: '', S (abspath E (mozilla_csv b))] w))),
            None)))"
proof -
  have run: "main_mozilla E b w =
     (case reconcile_mozilla (expect_count b) (no_strict_count b) df of
        (ms2, Inl err) \<Rightarrow>
          (prints ms2 (print [S ''  In-span rows (kept): '', N (int (length (rows df)))]
             (prints msr (print [S arrow, S '' Loading CSV: '', S (abspath E (mozilla_csv b))] w))),
           Some err)
      | (ms2, Inr d) \<Rightarrow>
          (emit_mozilla E b enc d
             (prints ms2 (print [S ''  In-span rows (kept): '', N (int (length (rows df)))]
                (prints msr (print [S arrow, S '' Loading CSV: '', S (abspath E (mozilla_csv b))]
                   w)))), None))"
    if "path_exists E (mozilla_csv b)"
      and "read_csv_with_fallback E (mozilla_csv b) (encoding b) = (msr, Inr (df_raw, enc))"
      and "window_mozilla E df_raw (start_date b) (end_date b) = Inr df"
    using that by (rule main_mozilla_after_window)
  have pr: "prints [m] v = print m v" for m v by (simp add: prints_def print_def)
  have rec: "(expect \<noteq> 0 \<and> int (length (rows df)) \<noteq> expect \<longrightarrow>
      reconcile_mozilla expect False df =
        ([], Inl (ValueError [S ''In-span rows '', N (int (length (rows df))),
                             S '' != expected '', N expect, S ''. '',
                             S ''Rerun with --no_strict_count if you want to proceed anyway.''])) \<and>
      reconcile_mozilla expect True df =
        ([[S ''  WARNING: In-span rows '', N (int (length (rows df))),
           S '' != expected '', N expect, S '' (continuing).'']], Inr df)) \<and>
   (int (length (rows df)) = expect \<longrightarrow> reconcile_mozilla expect nonstrict df = ([], Inr df)) \<and>
   (case snd (reconcile_mozilla expect nonstrict df) of Inl err \<Rightarrow> True | Inr d \<Rightarrow> d = df)"
    by (simp add: reconcile_mozilla_def Let_def)
  show ?thesis
    using rec run by (auto simp: reconcile_mozilla_def Let_def pr prints_Nil)
qed

theorem exact_match_policy_witness:
  "reconcile_mozilla 110467 False ex_span =
     ([], Inl (ValueError [S ''In-span rows '', N 3, S '' != expected '', N 110467, S ''. '',
                          S ''Rerun with --no_strict_count if you want to proceed anyway.''])) \<and>
   reconcile_mozilla 110467 True ex_span =
     ([[S ''  WARNING: In-span rows '', N 3, S '' != expected '', N 110467, S '' (continuing).'']],
      Inr ex_span) \<and>
   reconcile_mozilla 3 False ex_span = ([], Inr ex_span) \<and>
   snd (main_mozilla ex_env ex_args_mozilla ex_world) =
     Some (ValueError [S ''In-span rows '', N 4, S '' != expected '', N 110467, S ''. '',
                      S ''Rerun with --no_strict_count if you want to proceed anyway.''])"
proof -
  have l: "int (length (rows ex_span)) = 3" by (simp add: ex_span_def)
  have b: "mozilla_csv ex_args_mozilla = ''bugs.csv''" "encoding ex_args_mozilla = ''utf-8''"
    "start_date ex_args_mozilla = ''1999-06-01''" "end_date ex_args_mozilla = ''2021-02-28''"
    "expect_count ex_args_mozilla = 110467" "\<not> no_strict_count ex_args_mozilla"
    by (simp_all add: ex_args_mozilla_def)
  show ?thesis
    using exact_match_policy [of 110467 ex_span]
      exact_match_policy [of 3 ex_span False]
      exact_match_policy [where E = ex_env and b = ex_args_mozilla and msr = "[]"
        and df_raw = ex_raw and enc = "''utf-8''" and w = ex_world
        and df = "ex_raw\<lparr>rows := [rows ex_raw ! 0, rows ex_raw ! 2, rows ex_raw ! 3, rows ex_raw ! 4]\<rparr>"]
    by (simp add: l b ex_load ex_window_mozilla)
qed

theorem exact_match_policy_counterexample:
  "int (length (rows ex_span)) \<noteq> 0 \<and> reconcile_mozilla 0 False ex_span = ([], Inr ex_span)"
  by (simp add: reconcile_mozilla_def ex_span_def)

text \<open>
  C10. A count parameter of zero switches the reconciler off in both pipelines: nothing is
  trimmed, nothing is raised and nothing is printed, whatever the number of in-window rows,
  and the run goes on to derive, split and emit the whole in-window frame.
\<close>

theorem zero_count_disables_reconciler:
  "reconcile_eclipse E 0 allow df = ([], Inr df) \<and>
   reconcile_mozilla 0 nonstrict df = ([], Inr df) \<and>
   (resolve_csv_path E (eclipse_csv a) = (msp, Inr csv_path) \<and>
    read_csv_with_fallback E csv_path (encoding a) = (msr, Inr (df_raw, enc)) \<and>
    filter_window E df_raw (start_date a) (end_date a) = Inr dfa \<and> target_exact a = 0 \<longrightarrow>
      main_eclipse E a w =
        (emit_eclipse E a csv_path enc dfa
           (prints msr (print [S arrow, S '' Loading CSV: '', S (abspath E csv_path)]
              (prints msp w))), None)) \<and>
   (path_exists E (mozilla_csv b) \<and>
    read_csv_with_fallback E (mozilla_csv b) (encoding b) = (msr', Inr (df_raw', enc')) \<and>
    window_mozilla E df_raw' (start_date b) (end_date b) = Inr dfb \<and> expect_count b = 0 \<longrightarrow>
      main_mozilla E b w =
        (emit_mozilla E b enc' dfb
           (print [S ''  In-span rows (kept): '', N (int (length (rows dfb)))]
              (prints msr'
                 (print [S arrow, S '' Loading CSV: '', S (abspath E (mozilla_csv b))] w))),
         None))"
proof -
  have z: "reconcile_eclipse E 0 allow' d = ([], Inr d)" "reconcile_mozilla 0 ns d = ([], Inr d)"
    for allow' ns d
    by (simp_all add: reconcile_eclipse_def reconcile_mozilla_def)
  have ra: "main_eclipse E a w =
        (emit_eclipse E a csv_path enc dfa
           (prints msr (print [S arrow, S '' Loading CSV: '', S (abspath E csv_path)]
              (prints msp w))), None)"
    if "resolve_csv_path E (eclipse_csv a) = (msp, Inr csv_path)"
      and "read_csv_with_fallback E csv_path (encoding a) = (msr, Inr (df_raw, enc))"
      and "filter_window E df_raw (start_date a) (end_date a) = Inr dfa"
      and "target_exact a = 0"
    using main_eclipse_after_window [OF that(1,2,3), of w] that(4) by (simp add: z prints_Nil)
  have rb: "main_mozilla E b w =
        (emit_mozilla E b enc' dfb
           (print [S ''  In-span rows (kept): '', N (int (length (rows dfb)))]
              (prints msr'
                 (print [S arrow, S '' Loading CSV: '', S (abspath E (mozilla_csv b))] w))),
         None)"
    if "path_exists E (mozilla_csv b)"
      and "read_csv_with_fallback E (mozilla_csv b) (encoding b) = (msr', Inr (df_raw', enc'))"
      and "window_mozilla E df_raw' (start_date b) (end_date b) = Inr dfb"
      and "expect_count b = 0"
    using main_mozilla_after_window [OF that(1,2,3), of w] that(4) by (simp add: z prints_Nil)
  show ?thesis using z ra rb by blast
qed

theorem zero_count_disables_reconciler_witness:
  "reconcile_eclipse ex_env 0 False ex_span = ([], Inr ex_span) \<and>
   reconcile_mozilla 0 False ex_span = ([], Inr ex_span) \<and>
   main_eclipse ex_env (ex_args_eclipse\<lparr>target_exact := 0\<rparr>) ex_world =
     (emit_eclipse ex_env (ex_args_eclipse\<lparr>target_exact := 0\<rparr>) ''bugs.csv'' ''utf-8'' ex_span
        (print [S arrow, S '' Loading CSV: '', S ''/data/bugs.csv''] ex_world), None) \<and>
   main_mozilla ex_env (ex_args_mozilla\<lparr>expect_count := 0\<rparr>) ex_world =
     (emit_mozilla ex_env (ex_args_mozilla\<lparr>expect_count := 0\<rparr>) ''utf-8''
        (ex_raw\<lparr>rows := [rows ex_raw ! 0, rows ex_raw ! 2, rows ex_raw ! 3, rows ex_raw ! 4]\<rparr>)
        (print [S ''  In-span rows (kept): '', N 4]
           (print [S arrow, S '' Loading CSV: '', S ''/data/bugs.csv''] ex_world)), None)"
proof -
  have a: "eclipse_csv (ex_args_eclipse\<lparr>target_exact := 0\<rparr>) = ''bugs.csv''"
    "encoding (ex_args_eclipse\<lparr>target_exact := 0\<rparr>) = ''utf-8''"
    "start_date (ex_args_eclipse\<lparr>target_exact := 0\<rparr>) = ''2007-11-01''"
    "end_date (ex_args_eclipse\<lparr>target_exact := 0\<rparr>) = ''2015-11-30''"
    by (simp_all add: ex_args_eclipse_def)
  have b: "mozilla_csv (ex_args_mozilla\<lparr>expect_count := 0\<rparr>) = ''bugs.csv''"
    "encoding (ex_args_mozilla\<lparr>expect_count := 0\<rparr>) = ''utf-8''"
    "start_date (ex_args_mozilla\<lparr>expect_count := 0\<rparr>) = ''1999-06-01''"
    "end_date (ex_args_mozilla\<lparr>expect_count := 0\<rparr>) = ''2021-02-28''"
    by (simp_all add: ex_args_mozilla_def)
  have p: "abspath ex_env ''bugs.csv'' = ''/data/bugs.csv''" by (simp add: ex_env_def)
  show ?thesis
    using zero_count_disables_reconciler [where E = ex_env and allow = False and df = ex_span
        and nonstrict = False and a = "ex_args_eclipse\<lparr>target_exact := 0\<rparr>" and msp = "[]"
        and csv_path = "''bugs.csv''" and msr = "[]" and df_raw = ex_raw and enc = "''utf-8''"
        and dfa = ex_span and w = ex_world and b = "ex_args_mozilla\<lparr>expect_count := 0\<rparr>"
        and msr' = "[]" and df_raw' = ex_raw and enc' = "''utf-8''"
        and dfb = "ex_raw\<lparr>rows := [rows ex_raw ! 0, rows ex_raw ! 2, rows ex_raw ! 3, rows ex_raw ! 4]\<rparr>"]
    by (simp add: a b p ex_load ex_span_in_window ex_window_mozilla prints_Nil)
qed

section \<open>Fatal conditions\<close>

lemma main_eclipse_missing_file:
  assumes "\<not> path_exists E (eclipse_csv a)" and "\<not> path_exists E ''eclipse_my.csv''"
  shows "main_eclipse E a w =
     (w, Some (FileNotFoundError [S ''Neither '', S (eclipse_csv a), S '' nor eclipse_my.csv exists.'']))"
  using assms by (simp add: main_eclipse_def resolve_csv_path_def prints_Nil)

lemma main_eclipse_load_fails:
  assumes "resolve_csv_path E (eclipse_csv a) = (msp, Inr csv_path)"
    and "read_csv_with_fallback E csv_path (encoding a) = (msr, Inl err)"
  shows "main_eclipse E a w =
     (prints msr (print [S arrow, S '' Loading CSV: '', S (abspath E csv_path)] (prints msp w)),
      Some err)"
  using assms by (simp add: main_eclipse_def Let_def)

lemma main_eclipse_window_fails:
  assumes p: "resolve_csv_path E (eclipse_csv a) = (msp, Inr csv_path)"
    and r: "read_csv_with_fallback E csv_path (encoding a) = (msr, Inr (df_raw, enc))"
    and f: "filter_window E df_raw (start_date a) (end_date a) = Inl err"
  shows "main_eclipse E a w =
     (prints msr (print [S arrow, S '' Loading CSV: '', S (abspath E csv_path)] (prints msp w)),
      Some err)"
proof (cases "ensure_datetime_col E df_raw ''creation_time''")
  case (Inl e)
  then have "err = e" using f by (simp add: filter_window_def)
  then show ?thesis using Inl by (simp add: main_eclipse_def p r Let_def)
next
  case (Inr d)
  have "filter_window E d (start_date a) (end_date a) = Inl err"
    using filter_window_after_ensure [where E = E and df = df_raw] Inr f by simp
  then show ?thesis using Inr by (simp add: main_eclipse_def p r Let_def)
qed

lemma filter_window_missing_column:
  assumes "\<not> has_col df ''creation_time''"
  shows "filter_window E df start end =
     Inl (KeyError [S ''CSV must contain '', R ''creation_time'', S ''.''])"
  using assms by (simp add: filter_window_def ensure_datetime_col_def)

lemma main_mozilla_missing_file:
  assumes "\<not> path_exists E (mozilla_csv b)"
  shows "main_mozilla E b w = (w, Some (FileNotFoundError [S (mozilla_csv b)]))"
  using assms by (simp add: main_mozilla_def)

lemma main_mozilla_load_fails:
  assumes "path_exists E (mozilla_csv b)"
    and "read_csv_with_fallback E (mozilla_csv b) (encoding b) = (msr, Inl err)"
  shows "main_mozilla E b w =
     (prints msr (print [S arrow, S '' Loading CSV: '', S (abspath E (mozilla_csv b))] w),
      Some err)"
  using assms by (simp add: main_mozilla_def Let_def)

lemma main_mozilla_window_fails:
  assumes "path_exists E (mozilla_csv b)"
    and "read_csv_with_fallback E (mozilla_csv b) (encoding b) = (msr, Inr (df_raw, enc))"
    and "window_mozilla E df_raw (start_date b) (end_date b) = Inl err"
  shows "main_mozilla E b w =
     (prints msr (print [S arrow, S '' Loading CSV: '', S (abspath E (mozilla_csv b))] w),
      Some err)"
  using assms by (simp add: main_mozilla_def Let_def)

lemma window_mozilla_missing_column:
  assumes "\<not> has_col df ''creation_time''"
  shows "window_mozilla E df start end =
     Inl (KeyError [S ''CSV must contain '', R ''creation_time'', S ''.''])"
  using assms by (simp add: window_mozilla_def)

lemma mismatch_fails:
  assumes "expect \<noteq> 0" and "int (length (rows df)) \<noteq> expect"
  shows "reconcile_mozilla expect False df =
     ([], Inl (ValueError [S ''In-span rows '', N (int (length (rows df))),
                          S '' != expected '', N expect, S ''. '',
                          S ''Rerun with --no_strict_count if you want to proceed anyway.'']))"
  using assms by (simp add: reconcile_mozilla_def Let_def)

lemma aborted_printing:
  "aborted_before_output w (w, Some err) err"
  "aborted_before_output w (print m w, Some err) err"
  "aborted_before_output w (prints ms (print m w), Some err) err"
  "aborted_before_output w (prints ms (print m (prints ms' w)), Some err) err"
  "aborted_before_output w (prints ms (print m (prints ms' (print m' w))), Some err) err"
  by (simp_all add: aborted_before_output_def files_print dirs_print files_prints dirs_prints)

text \<open>
  C9. In either pipeline, each fatal condition of loading, column validation, window
  filtering and count reconciliation ends the run with its error before any emitter is
  called, so that no file is written and no directory is created: a source file that does
  not exist (for pipeline A, neither the given file nor \<open>eclipse_my.csv\<close>), a read that
  fails, a table without the \<open>creation_time\<close> column, a window bound the library rejects,
  and
  a count-policy violation without its override (fewer rows than a target in pipeline A, a
  count other than a nonzero expected count in pipeline B).
\<close>

theorem fatal_condition_writes_no_file:
  "(\<not> path_exists E (eclipse_csv a) \<and> \<not> path_exists E ''eclipse_my.csv'' \<longrightarrow>
      aborted_before_output w (main_eclipse E a w)
        (FileNotFoundError [S ''Neither '', S (eclipse_csv a), S '' nor eclipse_my.csv exists.''])) \<and>
   (resolve_csv_path E (eclipse_csv a) = (msp, Inr csv_path) \<longrightarrow>
      (read_csv_with_fallback E csv_path (encoding a) = (msr, Inl err) \<longrightarrow>
         aborted_before_output w (main_eclipse E a w) err) \<and>
      (read_csv_with_fallback E csv_path (encoding a) = (msr, Inr (df_raw, enc)) \<longrightarrow>
         (\<not> has_col df_raw ''creation_time'' \<longrightarrow>
            aborted_before_output w (main_eclipse E a w)
              (KeyError [S ''CSV must contain '', R ''creation_time'', S ''.''])) \<and>
         (filter_window E df_raw (start_date a) (end_date a) = Inl err \<longrightarrow>
            aborted_before_output w (main_eclipse E a w) err) \<and>
         (filter_window E df_raw (start_date a) (end_date a) = Inr df \<and>
          int (length (rows df)) < target_exact a \<and> \<not> allow_below_target a \<longrightarrow>
            aborted_before_output w (main_eclipse E a w)
              (ValueError [S ''Only '', N (int (length (rows df))),
                           S '' rows in window (< target '', N (target_exact a), S ''). '',
                           S ''Re-run after augmenting or use --allow_below_target'',
                           S ''.''])))) \<and>
   (\<not> path_exists E (mozilla_csv b) \<longrightarrow>
      aborted_before_output w (main_mozilla E b w) (FileNotFoundError [S (mozilla_csv b)])) \<and>
   (path_exists E (mozilla_csv b) \<longrightarrow>
      (read_csv_with_fallback E (mozilla_csv b) (encoding b) = (msr', Inl err') \<longrightarrow>
         aborted_before_output w (main_mozilla E b w) err') \<and>
      (read_csv_with_fallback E (mozilla_csv b) (encoding b) = (msr', Inr (df_raw', enc')) \<longrightarrow>
         (\<not> has_col df_raw' ''creation_time'' \<longrightarrow>
            aborted_before_output w (main_mozilla E b w)
              (KeyError [S ''CSV must contain '', R ''creation_time'', S ''.''])) \<and>
         (window_mozilla E df_raw' (start_date b) (end_date b) = Inl err' \<longrightarrow>
            aborted_before_output w (main_mozilla E b w) err') \<and>
         (window_mozilla E df_raw' (start_date b) (end_date b) = Inr dfb \<and>
          expect_count b \<noteq> 0 \<and> int (length (rows dfb)) \<noteq> expect_count b \<and>
          \<not> no_strict_count b \<longrightarrow>
            aborted_before_output w (main_mozilla E b w)
              (ValueError [S ''In-span rows '', N (int (length (rows dfb))),
                           S '' != expected '', N (expect_count b), S ''. '',
                           S ''Rerun with --no_strict_count if you want to proceed anyway.'']))))"
proof -
  have a1: "aborted_before_output w (main_eclipse E a w)
        (FileNotFoundError [S ''Neither '', S (eclipse_csv a), S '' nor eclipse_my.csv exists.''])"
    if "\<not> path_exists E (eclipse_csv a)" "\<not> path_exists E ''eclipse_my.csv''"
    by (simp add: main_eclipse_missing_file [OF that] aborted_printing)
  have a2: "aborted_before_output w (main_eclipse E a w) err"
    if "resolve_csv_path E (eclipse_csv a) = (msp, Inr csv_path)"
      "read_csv_with_fallback E csv_path (encoding a) = (msr, Inl err)"
    by (simp add: main_eclipse_load_fails [OF that] aborted_printing)
  have a4: "aborted_before_output w (main_eclipse E a w) e"
    if "resolve_csv_path E (eclipse_csv a) = (msp, Inr csv_path)"
      "read_csv_with_fallback E csv_path (encoding a) = (msr, Inr (df_raw, enc))"
      "filter_window E df_raw (start_date a) (end_date a) = Inl e" for e
    by (simp add: main_eclipse_window_fails [OF that] aborted_printing)
  have a3: "aborted_before_output w (main_eclipse E a w)
        (KeyError [S ''CSV must contain '', R ''creation_time'', S ''.''])"
    if "resolve_csv_path E (eclipse_csv a) = (msp, Inr csv_path)"
      "read_csv_with_fallback E csv_path (encoding a) = (msr, Inr (df_raw, enc))"
      "\<not> has_col df_raw ''creation_time''"
    using a4 [OF that(1,2) filter_window_missing_column [OF that(3)]] .
  have a5: "aborted_before_output w (main_eclipse E a w)
        (ValueError [S ''Only '', N (int (length (rows df))),
                     S '' rows in window (< target '', N (target_exact a), S ''). '',
                     S ''Re-run after augmenting or use --allow_below_target'', S ''.''])"
    if "resolve_csv_path E (eclipse_csv a) = (msp, Inr csv_path)"
      "read_csv_with_fallback E csv_path (encoding a) = (msr, Inr (df_raw, enc))"
      "filter_window E df_raw (start_date a) (end_date a) = Inr df"
      "int (length (rows df)) < target_exact a" "\<not> allow_below_target a"
    using below_target_fails [OF that(4), of E] that(5)
    by (simp add: main_eclipse_after_window [OF that(1,2,3)] aborted_printing prints_Nil)
  have b1: "aborted_before_output w (main_mozilla E b w) (FileNotFoundError [S (mozilla_csv b)])"
    if "\<not> path_exists E (mozilla_csv b)"
    by (simp add: main_mozilla_missing_file [OF that] aborted_printing)
  have b2: "aborted_before_output w (main_mozilla E b w) err'"
    if "path_exists E (mozilla_csv b)"
      "read_csv_with_fallback E (mozilla_csv b) (encoding b) = (msr', Inl err')"
    by (simp add: main_mozilla_load_fails [OF that] aborted_printing)
  have b4: "aborted_before_output w (main_mozilla E b w) e"
    if "path_exists E (mozilla_csv b)"
      "read_csv_with_fallback E (mozilla_csv b) (encoding b) = (msr', Inr (df_raw', enc'))"
      "window_mozilla E df_raw' (start_date b) (end_date b) = Inl e" for e
    by (simp add: main_mozilla_window_fails [OF that] aborted_printing)
  have b3: "aborted_before_output w (main_mozilla E b w)
        (KeyError [S ''CSV must contain '', R ''creation_time'', S ''.''])"
    if "path_exists E (mozilla_csv b)"
      "read_csv_with_fallback E (mozilla_csv b) (encoding b) = (msr', Inr (df_raw', enc'))"
      "\<not> has_col df_raw' ''creation_time''"
    using b4 [OF that(1,2) window_mozilla_missing_column [OF that(3)]] .
  have b5: "aborted_before_output w (main_mozilla E b w)
        (ValueError [S ''In-span rows '', N (int (length (rows dfb))),
                     S '' != expected '', N (expect_count b), S ''. '',
                     S ''Rerun with --no_strict_count if you want to proceed anyway.''])"
    if "path_exists E (mozilla_csv b)"
      "read_csv_with_fallback E (mozilla_csv b) (encoding b) = (msr', Inr (df_raw', enc'))"
      "window_mozilla E df_raw' (start_date b) (end_date b) = Inr dfb"
      "expect_count b \<noteq> 0" "int (length (rows dfb)) \<noteq> expect_count b" "\<not> no_strict_count b"
    using mismatch_fails [OF that(4,5)] that(6)
    by (simp add: main_mozilla_after_window [OF that(1,2,3)] aborted_before_output_def
        files_print dirs_print files_prints dirs_prints)
  show ?thesis
    by (intro conjI impI; (elim conjE)?; (rule a1 a2 a3 a4 a5 b1 b2 b3 b4 b5; assumption))
qed


theorem fatal_condition_writes_no_file_witness:
  "aborted_before_output ex_world
     (main_eclipse ex_env (ex_args_eclipse\<lparr>eclipse_csv := ''nope.csv''\<rparr>) ex_world)
     (FileNotFoundError [S ''Neither '', S ''nope.csv'', S '' nor eclipse_my.csv exists.'']) \<and>
   aborted_before_output ex_world
     (main_mozilla ex_env (ex_args_mozilla\<lparr>mozilla_csv := ''nope.csv''\<rparr>) ex_world)
     (FileNotFoundError [S ''nope.csv'']) \<and>
   aborted_before_output ex_world (main_eclipse badcsv_env ex_args_eclipse ex_world)
     (OtherError ''ParserError'') \<and>
   aborted_before_output ex_world (main_mozilla badcsv_env ex_args_mozilla ex_world)
     (OtherError ''ParserError'') \<and>
   aborted_before_output ex_world (main_eclipse nocol_env ex_args_eclipse ex_world)
     (KeyError [S ''CSV must contain '', R ''creation_time'', S ''.'']) \<and>
   aborted_before_output ex_world (main_mozilla nocol_env ex_args_mozilla ex_world)
     (KeyError [S ''CSV must contain '', R ''creation_time'', S ''.'']) \<and>
   aborted_before_output ex_world
     (main_eclipse ex_env (ex_args_eclipse\<lparr>start_date := ''soon''\<rparr>) ex_world)
     (OtherError ''Timestamp'') \<and>
   aborted_before_output ex_world
     (main_mozilla ex_env (ex_args_mozilla\<lparr>start_date := ''soon''\<rparr>) ex_world)
     (OtherError ''Timestamp'') \<and>
   aborted_before_output ex_world (main_eclipse ex_env ex_args_eclipse ex_world)
     (ValueError [S ''Only '', N 3, S '' rows in window (< target '', N 16106, S ''). '',
                  S ''Re-run after augmenting or use --allow_below_target'', S ''.'']) \<and>
   aborted_before_output ex_world (main_mozilla ex_env ex_args_mozilla ex_world)
     (ValueError [S ''In-span rows '', N 4, S '' != expected '', N 110467, S ''. '',
                  S ''Rerun with --no_strict_count if you want to proceed anyway.''])"
proof -
  let ?four = "ex_raw\<lparr>rows := [rows ex_raw ! 0, rows ex_raw ! 2, rows ex_raw ! 3, rows ex_raw ! 4]\<rparr>"
  let ?nocol = "\<lparr>columns = [(''summary'', ObjectD)], rows = [[(''summary'', Str ''Crash on start'')]]\<rparr>"
  have ar: "eclipse_csv ex_args_eclipse = ''bugs.csv''" "encoding ex_args_eclipse = ''utf-8''"
    "start_date ex_args_eclipse = ''2007-11-01''" "end_date ex_args_eclipse = ''2015-11-30''"
    "target_exact ex_args_eclipse = 16106" "\<not> allow_below_target ex_args_eclipse"
    "mozilla_csv ex_args_mozilla = ''bugs.csv''" "encoding ex_args_mozilla = ''utf-8''"
    "start_date ex_args_mozilla = ''1999-06-01''" "end_date ex_args_mozilla = ''2021-02-28''"
    "expect_count ex_args_mozilla = 110467" "\<not> no_strict_count ex_args_mozilla"
    by (simp_all add: ex_args_eclipse_def ex_args_mozilla_def)
  have missing: "\<not> path_exists ex_env ''nope.csv''" "\<not> path_exists ex_env ''eclipse_my.csv''"
    by (simp_all add: ex_env_def)
  have bad: "resolve_csv_path badcsv_env ''bugs.csv'' = ([], Inr ''bugs.csv'')"
    "path_exists badcsv_env ''bugs.csv''"
    "read_csv_with_fallback badcsv_env ''bugs.csv'' ''utf-8'' = ([], Inl (OtherError ''ParserError''))"
    by (simp_all add: resolve_csv_path_def read_csv_with_fallback_def badcsv_env_def ex_env_def)
  have nocol: "resolve_csv_path nocol_env ''bugs.csv'' = ([], Inr ''bugs.csv'')"
    "path_exists nocol_env ''bugs.csv''"
    "read_csv_with_fallback nocol_env ''bugs.csv'' ''utf-8'' = ([], Inr (?nocol, ''utf-8''))"
    "\<not> has_col ?nocol ''creation_time''"
    by (simp_all add: resolve_csv_path_def read_csv_with_fallback_def nocol_env_def ex_env_def
        has_col_def)
  have c: "has_col ex_raw ''creation_time''"
    and r: "\<not> is_datetime64_any_dtype ex_raw ''creation_time''"
    by (simp_all add: has_col_def is_datetime64_any_dtype_def ex_raw_def)
  have soon: "filter_window ex_env ex_raw ''soon'' ''2015-11-30'' = Inl (OtherError ''Timestamp'')"
    "window_mozilla ex_env ex_raw ''soon'' ''2021-02-28'' = Inl (OtherError ''Timestamp'')"
    using c by (simp_all add: filter_window_def ensure_raw [OF c r] window_mozilla_def
        ex_env_def ex_Timestamp_def)
  have len: "int (length (rows ex_span)) = 3" "int (length (rows ?four)) = 4"
    by (simp_all add: ex_span_def)
  have i1: "aborted_before_output ex_world
     (main_eclipse ex_env (ex_args_eclipse\<lparr>eclipse_csv := ''nope.csv''\<rparr>) ex_world)
     (FileNotFoundError [S ''Neither '', S ''nope.csv'', S '' nor eclipse_my.csv exists.'']) \<and>
   aborted_before_output ex_world
     (main_mozilla ex_env (ex_args_mozilla\<lparr>mozilla_csv := ''nope.csv''\<rparr>) ex_world)
     (FileNotFoundError [S ''nope.csv''])"
    using fatal_condition_writes_no_file [where E = ex_env
        and a = "ex_args_eclipse\<lparr>eclipse_csv := ''nope.csv''\<rparr>"
        and b = "ex_args_mozilla\<lparr>mozilla_csv := ''nope.csv''\<rparr>" and w = ex_world] missing
    by simp
  have i2: "aborted_before_output ex_world (main_eclipse badcsv_env ex_args_eclipse ex_world)
     (OtherError ''ParserError'') \<and>
   aborted_before_output ex_world (main_mozilla badcsv_env ex_args_mozilla ex_world)
     (OtherError ''ParserError'')"
    using fatal_condition_writes_no_file [where E = badcsv_env and a = ex_args_eclipse
        and b = ex_args_mozilla and w = ex_world and msp = "[]" and csv_path = "''bugs.csv''"
        and msr = "[]" and err = "OtherError ''ParserError''" and msr' = "[]"
        and err' = "OtherError ''ParserError''"]
    by (simp add: ar bad)
  have i3: "aborted_before_output ex_world (main_eclipse nocol_env ex_args_eclipse ex_world)
     (KeyError [S ''CSV must contain '', R ''creation_time'', S ''.'']) \<and>
   aborted_before_output ex_world (main_mozilla nocol_env ex_args_mozilla ex_world)
     (KeyError [S ''CSV must contain '', R ''creation_time'', S ''.''])"
    using fatal_condition_writes_no_file [where E = nocol_env and a = ex_args_eclipse
        and b = ex_args_mozilla and w = ex_world and msp = "[]" and csv_path = "''bugs.csv''"
        and msr = "[]" and df_raw = ?nocol and enc = "''utf-8''" and msr' = "[]"
        and df_raw' = ?nocol and enc' = "''utf-8''"] nocol(4)
    by (simp add: ar nocol(1,2,3))
  have i4: "aborted_before_output ex_world
     (main_eclipse ex_env (ex_args_eclipse\<lparr>start_date := ''soon''\<rparr>) ex_world)
     (OtherError ''Timestamp'') \<and>
   aborted_before_output ex_world
     (main_mozilla ex_env (ex_args_mozilla\<lparr>start_date := ''soon''\<rparr>) ex_world)
     (OtherError ''Timestamp'')"
    using fatal_condition_writes_no_file [where E = ex_env
        and a = "ex_args_eclipse\<lparr>start_date := ''soon''\<rparr>"
        and b = "ex_args_mozilla\<lparr>start_date := ''soon''\<rparr>" and w = ex_world and msp = "[]"
        and csv_path = "''bugs.csv''" and msr = "[]" and df_raw = ex_raw and enc = "''utf-8''"
        and err = "OtherError ''Timestamp''" and msr' = "[]" and df_raw' = ex_raw
        and enc' = "''utf-8''" and err' = "OtherError ''Timestamp''"]
    by (simp add: ar ex_load soon)
  have i5: "aborted_before_output ex_world (main_eclipse ex_env ex_args_eclipse ex_world)
     (ValueError [S ''Only '', N 3, S '' rows in window (< target '', N 16106, S ''). '',
                  S ''Re-run after augmenting or use --allow_below_target'', S ''.'']) \<and>
   aborted_before_output ex_world (main_mozilla ex_env ex_args_mozilla ex_world)
     (ValueError [S ''In-span rows '', N 4, S '' != expected '', N 110467, S ''. '',
                  S ''Rerun with --no_strict_count if you want to proceed anyway.''])"
    using fatal_condition_writes_no_file [where E = ex_env and a = ex_args_eclipse
        and b = ex_args_mozilla and w = ex_world and msp = "[]" and csv_path = "''bugs.csv''"
        and msr = "[]" and df_raw = ex_raw and enc = "''utf-8''" and df = ex_span
        and msr' = "[]" and df_raw' = ex_raw and enc' = "''utf-8''" and dfb = ?four]
    by (simp add: ar ex_load ex_span_in_window ex_window_mozilla len)
  show ?thesis using i1 i2 i3 i4 i5 by simp
qed

end
